theory Spec2Isabelle
  imports Complex_Main
begin

section \<open>Numbers and strings of the source\<close>

text \<open>
  The source is TypeScript. A \<^verbatim>\<open>number\<close> that carries a measurement and is only
  copied, compared with zero or divided by 1000 (a wind speed, a precipitation amount, a
  visibility) is modelled as a rational. Times (\<^verbatim>\<open>Date.now()\<close>, milliseconds), durations
  and the numbers of the client's configuration are integers; a count of calls or of list
  elements is a natural. The temperature conversion is arithmetic on IEEE 754 doubles,
  where every operation rounds: it is modelled on the type \<open>double\<close> below.
\<close>

type_synonym number = rat

subsection \<open>IEEE 754 binary64 arithmetic\<close>

text \<open>
  A JavaScript \<^verbatim>\<open>number\<close> is a binary64 floating-point value: a finite value
  \<open>m * 2^e\<close> with \<open>\<bar>m\<bar> < 2^53\<close> and \<open>- 1074 \<le> e \<le> 971\<close>, an infinity or NaN. A finite
  double is represented by the rational it denotes (the two zeros are identified, as
  \<^verbatim>\<open>===\<close> does). Two doubles are equal in the model when they are the same value, so
  \<open>NaN\<close> equals itself here, as for \<^verbatim>\<open>Object.is\<close>.
\<close>

datatype double = Finite rat | PlusInfinity | MinusInfinity | NaN

text \<open>The number of binary digits of a positive integer, and the powers of two.\<close>

function bitLength :: "int \<Rightarrow> int" where
  "bitLength n = (if n \<le> 0 then 0 else 1 + bitLength (n div 2))"
  by pat_completeness auto
termination
  by (relation "measure nat") auto

declare bitLength.simps [simp del]

function pow2 :: "int \<Rightarrow> rat" where
  "pow2 e = (if e = 0 then 1 else if 0 < e then 2 * pow2 (e - 1) else pow2 (e + 1) / 2)"
  by pat_completeness auto
termination
  by (relation "measure (\<lambda>e. nat \<bar>e\<bar>)") auto

declare pow2.simps [simp del]

text \<open>
  For \<open>0 < x\<close>, \<open>floorLog2 x\<close> is the exponent \<open>k\<close> with \<open>2^k \<le> x < 2^(k+1)\<close>: for
  \<open>1 \<le> x\<close> from the digits of \<open>\<lfloor>x\<rfloor>\<close>, for \<open>x < 1\<close> from those of \<open>\<lceil>1 / x\<rceil> - 1\<close>.
\<close>

definition floorLog2 :: "rat \<Rightarrow> int" where
  "floorLog2 x =
     (if 1 \<le> x then bitLength \<lfloor>x\<rfloor> - 1
      else - bitLength (\<lceil>1 / x\<rceil> - 1))"

text \<open>Rounding to the nearest integer, a tie going to the even one.\<close>

definition roundHalfEven :: "rat \<Rightarrow> int" where
  "roundHalfEven m =
     (if m - of_int \<lfloor>m\<rfloor> < 1 / 2 then \<lfloor>m\<rfloor>
      else if 1 / 2 < m - of_int \<lfloor>m\<rfloor> then \<lfloor>m\<rfloor> + 1
      else if even \<lfloor>m\<rfloor> then \<lfloor>m\<rfloor> else \<lfloor>m\<rfloor> + 1)"

text \<open>
  The doubles around a positive \<open>x\<close> are the multiples of \<open>quantum x\<close>: 53 significant
  bits for a normal number, and the fixed step \<open>2^(- 1074)\<close> for a subnormal one.
  \<open>nearest x\<close> is the multiple nearest to \<open>x\<close>, ties to even (the default rounding mode,
  the only one of JavaScript). A result of magnitude \<open>2^1024\<close> or more overflows to an
  infinity.
\<close>

definition quantum :: "rat \<Rightarrow> rat" where
  "quantum x = pow2 (max (floorLog2 x - 52) (- 1074))"

definition nearest :: "rat \<Rightarrow> rat" where
  "nearest x = of_int (roundHalfEven (x / quantum x)) * quantum x"

definition roundToDouble :: "rat \<Rightarrow> double" where
  "roundToDouble x =
     (if x = 0 then Finite 0
      else if pow2 1024 \<le> nearest \<bar>x\<bar> then (if 0 < x then PlusInfinity else MinusInfinity)
      else Finite (if 0 < x then nearest \<bar>x\<bar> else - nearest \<bar>x\<bar>))"

text \<open>A rational is a double when rounding leaves it as it is.\<close>

definition representable :: "rat \<Rightarrow> bool" where
  "representable x = (roundToDouble x = Finite x)"


section \<open>Temperature units (hooks/useTemperatureUnit, convertTemperature)\<close>



text \<open>The double nearest to 0.1, the literal \<^verbatim>\<open>0.1\<close> of JavaScript.\<close>

definition oneTenth :: double where
  "oneTenth = Finite (3602879701896397 / 36028797018963968)"

section \<open>Strings: decimal numerals and \<^verbatim>\<open>String.prototype.includes\<close>\<close>

text \<open>
  A template literal \<^verbatim>\<open>`${n}`\<close> of a non-negative integer \<open>n\<close> is its decimal
  numeral, without leading zeros. (\<open>digitChar\<close> is only applied to a digit, a number
  below 10.)
\<close>

definition digitChar :: "nat \<Rightarrow> char" where
  "digitChar d = ''0123456789'' ! d"

function toString :: "nat \<Rightarrow> string" where
  "toString n = (if n < 10 then [digitChar n] else toString (n div 10) @ [digitChar (n mod 10)])"
  by pat_completeness auto
termination
  by (relation "measure (\<lambda>n. n)") auto

declare toString.simps [simp del]

text \<open>\<^verbatim>\<open>s.startsWith(sub)\<close> and \<^verbatim>\<open>s.includes(sub)\<close>: \<open>sub\<close> occurs in \<open>s\<close> as a
  contiguous run of characters.\<close>

fun startsWith :: "string \<Rightarrow> string \<Rightarrow> bool" where
  "startsWith s [] = True"
| "startsWith [] (c # sub) = False"
| "startsWith (x # s) (c # sub) = (x = c \<and> startsWith s sub)"

fun includes_str :: "string \<Rightarrow> string \<Rightarrow> bool" where
  "includes_str [] sub = (sub = [])"
| "includes_str (x # s) sub = (startsWith (x # s) sub \<or> includes_str s sub)"

section \<open>Errors\<close>

text \<open>
  What a function of the source throws: an \<^verbatim>\<open>Error\<close> object, of which callers read
  only the \<^verbatim>\<open>message\<close>, or (in one place of the API client) the value
  \<^verbatim>\<open>undefined\<close>. A rejected promise carries the same values.
\<close>

datatype jsError = Error string | ThrownUndefined

fun message :: "jsError \<Rightarrow> string option" where
  "message (Error m) = Some m"
| "message ThrownUndefined = None"

section \<open>The city list (hooks/useCityList.ts)\<close>

record Coordinates =
  lat :: number
  lon :: number

text \<open>
  \<^verbatim>\<open>interface City\<close> (types/location.ts). Optional fields are options; the fields
  not listed here (\<^verbatim>\<open>metadata\<close>) travel in the record's extension, which the spread
  \<^verbatim>\<open>{...city, addedAt: Date.now()}\<close> copies like every other field. The property
  \<^verbatim>\<open>id\<close> is \<open>id'\<close> here, \<open>id\<close> being the identity function.
\<close>

record City =
  id' :: string
  name :: string
  country :: string
  state :: "string option"
  coordinates :: Coordinates
  timezone :: "string option"
  population :: "number option"
  elevation :: "number option"
  addedAt :: "int option"
  isFavorite :: "bool option"

text \<open>The optional callbacks of \<^verbatim>\<open>UseCityListOptions\<close>: the calls made are logged, and
  a callback is taken to return.\<close>

datatype 'm callback = onCityAdded "'m City_scheme" | onCityRemoved "'m City_scheme" | onError string

text \<open>
  The state of one \<^verbatim>\<open>useCityList\<close> instance: \<open>cities\<close> is the list persisted under
  the key \<^verbatim>\<open>userCities\<close> by \<^verbatim>\<open>useLocalStorage\<close>, \<open>isLoading\<close> and \<open>error\<close> are
  the two \<^verbatim>\<open>useState\<close> cells.
\<close>

record 'm CityList =
  cities :: "'m City_scheme list"
  isLoading :: bool
  error :: "string option"
  callbacks :: "'m callback list"

text \<open>
  \<^verbatim>\<open>
  const { maxCities = 20, ... } = options;
  const addCity = async (city) => {
    setIsLoading(true); setError(null);
    try {
      if (!city.id || !city.name || !city.country)
        throw new Error("Invalid city data: missing required fields");
      const existingCity = cities.find((c) =>
        c.id === city.id || (c.name === city.name && c.country === city.country));
      if (existingCity) throw new Error(`${city.name} is already in your city list`);
      if (cities.length >= maxCities) throw new Error(`Maximum ${maxCities} cities allowed`);
      const cityWithTimestamp = { ...city, addedAt: Date.now() };
      setCities((prevCities) => [cityWithTimestamp, ...prevCities]);
      onCityAdded?.(cityWithTimestamp);
    } catch (err) {
      const errorMessage = err instanceof Error ? err.message : "Failed to add city";
      setError(errorMessage); onError?.(errorMessage); throw err;
    } finally { setIsLoading(false); }
  }
  \<close>
  The function has no \<^verbatim>\<open>await\<close>: it runs to completion when called, and the promise
  it returns is already settled. A string is falsy exactly when it is empty.
  \<open>maxCitiesOpt\<close> is the option of the caller (\<open>None\<close>: left out, so 20), \<open>now\<close>
  is \<^verbatim>\<open>Date.now()\<close>. The result is the rejection (\<open>Inl\<close>) or the fulfilment of the
  promise, with the state after the call. \<open>checkCity\<close> is the three checks of the
  \<^verbatim>\<open>try\<close> block, in their order; \<open>addCity\<close> is the whole function.
\<close>

definition maxCitiesOf :: "nat option \<Rightarrow> nat" where
  "maxCitiesOf maxCitiesOpt = (case maxCitiesOpt of None \<Rightarrow> 20 | Some m \<Rightarrow> m)"

definition checkCity :: "nat \<Rightarrow> 'm City_scheme list \<Rightarrow> 'm City_scheme \<Rightarrow> jsError + unit" where
  "checkCity maxCities cs city =
     (if id' city = [] \<or> name city = [] \<or> country city = [] then
        Inl (Error ''Invalid city data: missing required fields'')
      else
        (case find (\<lambda>c. id' c = id' city \<or> (name c = name city \<and> country c = country city)) cs of
           Some existingCity \<Rightarrow> Inl (Error (name city @ '' is already in your city list''))
         | None \<Rightarrow>
             if length cs \<ge> maxCities then
               Inl (Error (''Maximum '' @ toString maxCities @ '' cities allowed''))
             else Inr ()))"

definition addCity ::
  "nat option \<Rightarrow> int \<Rightarrow> 'm City_scheme \<Rightarrow> 'm CityList \<Rightarrow> (jsError + unit) \<times> 'm CityList" where
  "addCity maxCitiesOpt now city st =
     (let st1 = st\<lparr>isLoading := True, error := None\<rparr> in
      case checkCity (maxCitiesOf maxCitiesOpt) (cities st1) city of
        Inr u \<Rightarrow>
          (let cityWithTimestamp = city\<lparr>addedAt := Some now\<rparr> in
           (Inr (),
            st1\<lparr>cities := cityWithTimestamp # cities st1,
                callbacks := callbacks st1 @ [onCityAdded cityWithTimestamp],
                isLoading := False\<rparr>))
      | Inl err \<Rightarrow>
          (let errorMessage = (case message err of Some m \<Rightarrow> m | None \<Rightarrow> ''Failed to add city'') in
           (Inl err,
            st1\<lparr>error := Some errorMessage,
                callbacks := callbacks st1 @ [onError errorMessage],
                isLoading := False\<rparr>)))"

subsection \<open>Example values\<close>

definition paris :: City where
  "paris = \<lparr>id' = ''a'', name = ''Paris'', country = ''FR'', state = None,
     coordinates = \<lparr>lat = 48, lon = 2\<rparr>, timezone = None, population = None,
     elevation = None, addedAt = None, isFavorite = None\<rparr>"

definition lyon :: City where
  "lyon = \<lparr>id' = ''b'', name = ''Lyon'', country = ''FR'', state = None,
     coordinates = \<lparr>lat = 45, lon = 4\<rparr>, timezone = None, population = None,
     elevation = None, addedAt = None, isFavorite = None\<rparr>"

definition listOf :: "City list \<Rightarrow> unit CityList" where
  "listOf cs = \<lparr>cities = cs, isLoading = False, error = None, callbacks = []\<rparr>"

section \<open>The response transformer (services/openWeatherApi.ts, transformCurrentWeather)\<close>

text \<open>
  \<^verbatim>\<open>interface WeatherData\<close> (types/weather.ts): the normalized record. A field declared
  with \<^verbatim>\<open>?\<close> is an option, \<open>None\<close> when the property is not set on the object.
  (\<^verbatim>\<open>details\<close>, which no transformer sets, is left out.)
\<close>

record WeatherData =
  dt :: number
  temperature :: number
  feelsLike :: "number option"
  condition :: string
  icon :: "string option"
  humidity :: number
  pressure :: number
  windSpeed :: number
  windDirection :: "number option"
  windGust :: "number option"
  visibility :: "number option"
  uvIndex :: "number option"
  cloudCover :: "number option"
  dewPoint :: "number option"
  precipitation :: "number option"
  precipitationProbability :: "number option"
  sunrise :: "number option"
  sunset :: "number option"
  airQuality :: "number option"

text \<open>
  \<^verbatim>\<open>interface OpenWeatherCurrentResponse\<close>, restricted to the properties that
  \<^verbatim>\<open>transformCurrentWeather\<close> reads. A property is an option here exactly when the
  transformer allows for its absence (\<^verbatim>\<open>!== undefined\<close>, \<^verbatim>\<open>?.\<close>, \<^verbatim>\<open>|| 0\<close>), whatever the
  interface declares. Where a property has the name of a \<^verbatim>\<open>WeatherData\<close> field, the
  response's one carries a prime (\<open>dt'\<close>, \<open>icon'\<close>, \<open>humidity'\<close>, \<open>pressure'\<close>,
  \<open>visibility'\<close>, \<open>sunrise'\<close>, \<open>sunset'\<close>); \<open>h1\<close> is the property \<^verbatim>\<open>"1h"\<close>.
\<close>

record Condition =
  description :: string
  icon' :: string

record Main =
  temp :: number
  feels_like :: "number option"
  pressure' :: number
  humidity' :: number

record Wind =
  speed :: number
  deg :: "number option"
  gust :: "number option"

record Clouds =
  all :: "number option"

record Volume =
  h1 :: "number option"

record Sys =
  sunrise' :: "number option"
  sunset' :: "number option"

record OpenWeatherCurrentResponse =
  weather :: "Condition list option"
  main :: Main
  visibility' :: "number option"
  wind :: Wind
  clouds :: "Clouds option"
  rain :: "Volume option"
  snow :: "Volume option"
  dt' :: number
  sys :: "Sys option"

text \<open>\<^verbatim>\<open>data.weather?.[0]\<close>: \<^verbatim>\<open>undefined\<close> when the array is missing or empty.\<close>

definition firstCondition :: "Condition list option \<Rightarrow> Condition option" where
  "firstCondition ws = (case ws of None \<Rightarrow> None | Some [] \<Rightarrow> None | Some (w # rest) \<Rightarrow> Some w)"

text \<open>\<^verbatim>\<open>(data.rain?.["1h"] || 0)\<close>: a missing object, a missing amount and the amount 0
  all give 0.\<close>

definition oneHourOrZero :: "Volume option \<Rightarrow> number" where
  "oneHourOrZero v =
     (case v of None \<Rightarrow> 0 | Some vol \<Rightarrow> (case h1 vol of None \<Rightarrow> 0 | Some x \<Rightarrow> if x = 0 then 0 else x))"

text \<open>
  \<^verbatim>\<open>
  const weather = data.weather?.[0];
  if (!weather) throw new Error("Invalid weather data: missing weather information");
  const result: WeatherData = { dt: data.dt, temperature: data.main.temp,
    condition: weather.description, humidity: data.main.humidity,
    pressure: data.main.pressure, windSpeed: data.wind.speed };
  if (data.main.feels_like !== undefined) result.feelsLike = data.main.feels_like;
  if (weather.icon) result.icon = weather.icon;
  if (data.wind.deg !== undefined) result.windDirection = data.wind.deg;
  if (data.wind.gust !== undefined) result.windGust = data.wind.gust;
  if (data.visibility !== undefined) result.visibility = data.visibility / 1000;
  if (data.clouds?.all !== undefined) result.cloudCover = data.clouds.all;
  if (data.sys?.sunrise !== undefined) result.sunrise = data.sys.sunrise;
  if (data.sys?.sunset !== undefined) result.sunset = data.sys.sunset;
  const precipitation = (data.rain?.["1h"] || 0) + (data.snow?.["1h"] || 0);
  if (precipitation > 0) result.precipitation = precipitation;
  return result;
  \<close>
  (The local \<^verbatim>\<open>precipitation\<close> is \<open>amount\<close> below, the field keeps the name.)
\<close>

text \<open>
  The two shapes of conditional assignment in the function body:
  \<^verbatim>\<open>if (x !== undefined) result.f = ...x...\<close> and \<^verbatim>\<open>if (c) result.f = ...\<close>.
\<close>

definition ifDefined :: "'v option \<Rightarrow> ('v \<Rightarrow> 'r \<Rightarrow> 'r) \<Rightarrow> 'r \<Rightarrow> 'r" where
  "ifDefined x assign result = (case x of None \<Rightarrow> result | Some v \<Rightarrow> assign v result)"

definition ifTrue :: "bool \<Rightarrow> ('r \<Rightarrow> 'r) \<Rightarrow> 'r \<Rightarrow> 'r" where
  "ifTrue c assign result = (if c then assign result else result)"

definition transformCurrentWeather :: "OpenWeatherCurrentResponse \<Rightarrow> jsError + WeatherData" where
  "transformCurrentWeather data =
     (case firstCondition (weather data) of
        None \<Rightarrow> Inl (Error ''Invalid weather data: missing weather information'')
      | Some w \<Rightarrow>
         (let result = \<lparr>dt = dt' data, temperature = temp (main data), feelsLike = None,
                condition = description w, icon = None, humidity = humidity' (main data),
                pressure = pressure' (main data), windSpeed = speed (wind data),
                windDirection = None, windGust = None, visibility = None, uvIndex = None,
                cloudCover = None, dewPoint = None, precipitation = None,
                precipitationProbability = None, sunrise = None, sunset = None,
                airQuality = None\<rparr>;
              result = ifDefined (feels_like (main data)) (\<lambda>v r. r\<lparr>feelsLike := Some v\<rparr>) result;
              result = ifTrue (icon' w \<noteq> []) (\<lambda>r. r\<lparr>icon := Some (icon' w)\<rparr>) result;
              result = ifDefined (deg (wind data)) (\<lambda>v r. r\<lparr>windDirection := Some v\<rparr>) result;
              result = ifDefined (gust (wind data)) (\<lambda>v r. r\<lparr>windGust := Some v\<rparr>) result;
              result = ifDefined (visibility' data) (\<lambda>v r. r\<lparr>visibility := Some (v / 1000)\<rparr>) result;
              result = ifDefined (case clouds data of None \<Rightarrow> None | Some c \<Rightarrow> all c)
                         (\<lambda>v r. r\<lparr>cloudCover := Some v\<rparr>) result;
              result = ifDefined (case sys data of None \<Rightarrow> None | Some s \<Rightarrow> sunrise' s)
                         (\<lambda>v r. r\<lparr>sunrise := Some v\<rparr>) result;
              result = ifDefined (case sys data of None \<Rightarrow> None | Some s \<Rightarrow> sunset' s)
                         (\<lambda>v r. r\<lparr>sunset := Some v\<rparr>) result;
              amount = oneHourOrZero (rain data) + oneHourOrZero (snow data);
              result = ifTrue (amount > 0) (\<lambda>r. r\<lparr>precipitation := Some amount\<rparr>) result
          in Inr result))"

subsection \<open>Example responses\<close>

definition clearSky :: OpenWeatherCurrentResponse where
  "clearSky = \<lparr>weather = Some [\<lparr>description = ''clear sky'', icon' = ''01d''\<rparr>],
     main = \<lparr>temp = 22, feels_like = Some 0, pressure' = 1013, humidity' = 40\<rparr>,
     visibility' = Some 10000, wind = \<lparr>speed = 3, deg = Some 0, gust = None\<rparr>,
     clouds = Some \<lparr>all = Some 0\<rparr>, rain = None, snow = None, dt' = 1700000000,
     sys = Some \<lparr>sunrise' = Some 1699990000, sunset' = None\<rparr>\<rparr>"

section \<open>The weather API client (services/openWeatherApi.ts, class OpenWeatherApiService)\<close>

subsection \<open>Configuration and state\<close>

text \<open>
  \<^verbatim>\<open>rateLimit?: { requests: number; window: number }\<close> and
  \<^verbatim>\<open>retry?: { attempts: number; delay: number }\<close> of \<^verbatim>\<open>OpenWeatherConfig\<close>. Times and
  durations are milliseconds. The defaults of \<^verbatim>\<open>DEFAULT_CONFIG\<close> (60 requests per
  60000 ms, 3 attempts, 1000 ms) are written where the methods fall back to them:
  \<^verbatim>\<open>this.config.rateLimit?.window || 60000\<close>, \<^verbatim>\<open>this.config.rateLimit?.requests || 60\<close>
  (a missing object and the number 0 both give the default) and
  \<^verbatim>\<open>const { attempts = 3, delay = 1000 } = this.config.retry || {}\<close>.
\<close>

record RateLimit =
  requests :: int
  window :: int

record Retry =
  attempts :: int
  delay :: int

record OpenWeatherConfig =
  rateLimit :: "RateLimit option"
  retry :: "Retry option"

definition windowOf :: "OpenWeatherConfig \<Rightarrow> int" where
  "windowOf cfg =
     (case rateLimit cfg of None \<Rightarrow> 60000 | Some rl \<Rightarrow> if window rl = 0 then 60000 else window rl)"

definition requestsOf :: "OpenWeatherConfig \<Rightarrow> int" where
  "requestsOf cfg =
     (case rateLimit cfg of None \<Rightarrow> 60 | Some rl \<Rightarrow> if requests rl = 0 then 60 else requests rl)"

definition attemptsOf :: "OpenWeatherConfig \<Rightarrow> int" where
  "attemptsOf cfg = (case retry cfg of None \<Rightarrow> 3 | Some r \<Rightarrow> attempts r)"

definition delayOf :: "OpenWeatherConfig \<Rightarrow> int" where
  "delayOf cfg = (case retry cfg of None \<Rightarrow> 1000 | Some r \<Rightarrow> delay r)"

text \<open>
  The private fields of the service that the request governor reads and writes:
  \<^verbatim>\<open>lastRequestTime\<close> (the start of the current rate window, initially 0) and
  \<^verbatim>\<open>requestCount\<close> (initially 0).
\<close>

record Governor =
  lastRequestTime :: int
  requestCount :: int

subsection \<open>checkRateLimit\<close>

text \<open>
  \<^verbatim>\<open>
  private async checkRateLimit(): Promise<void> {
    const now = Date.now();
    if (now - this.lastRequestTime > (this.config.rateLimit?.window || 60000)) {
      this.requestCount = 0;
      this.lastRequestTime = now;
    }
    if (this.requestCount >= (this.config.rateLimit?.requests || 60)) {
      const waitTime =
        (this.config.rateLimit?.window || 60000) - (now - this.lastRequestTime);
      await new Promise((resolve) => setTimeout(resolve, waitTime));
      this.requestCount = 0;
      this.lastRequestTime = Date.now();
    }
    this.requestCount++;
  }
  \<close>
  JavaScript runs one piece of code at a time and switches only at an \<^verbatim>\<open>await\<close>. The
  method is therefore two uninterrupted pieces: \<open>checkRateLimit_enter\<close>, from the
  call to the \<^verbatim>\<open>await\<close> of the timer (or to the end, when there is no wait), and
  \<open>checkRateLimit_resume\<close>, from the firing of the timer to the end. Between the two,
  other callers may run. \<open>now\<close> is what \<^verbatim>\<open>Date.now()\<close> returns in each piece.
\<close>

datatype entered = Admitted | Waits int

definition checkRateLimit_enter ::
  "OpenWeatherConfig \<Rightarrow> int \<Rightarrow> Governor \<Rightarrow> entered \<times> Governor" where
  "checkRateLimit_enter cfg now g =
     (let g1 = (if now - lastRequestTime g > windowOf cfg
                then g\<lparr>requestCount := 0, lastRequestTime := now\<rparr> else g)
      in if requestCount g1 \<ge> requestsOf cfg
         then (Waits (windowOf cfg - (now - lastRequestTime g1)), g1)
         else (Admitted, g1\<lparr>requestCount := requestCount g1 + 1\<rparr>))"

definition checkRateLimit_resume :: "int \<Rightarrow> Governor \<Rightarrow> Governor" where
  "checkRateLimit_resume now g =
     (let g1 = g\<lparr>requestCount := 0, lastRequestTime := now\<rparr>
      in g1\<lparr>requestCount := requestCount g1 + 1\<rparr>)"

text \<open>
  A call that nothing interrupts: \<open>woken\<close> is the time at which the timer, if one is
  set, has fired. It returns the wait, if any, with the state.
\<close>

definition checkRateLimit ::
  "OpenWeatherConfig \<Rightarrow> int \<Rightarrow> int \<Rightarrow> Governor \<Rightarrow> int option \<times> Governor" where
  "checkRateLimit cfg now woken g =
     (case checkRateLimit_enter cfg now g of
        (Admitted, g1) \<Rightarrow> (None, g1)
      | (Waits waitTime, g1) \<Rightarrow> (Some waitTime, checkRateLimit_resume woken g1))"

text \<open>
  Several callers. An event is the arrival of a caller at a time (\<open>Call\<close>), or the
  firing of the oldest pending timer at a time (\<open>Fire\<close>), after which the caller that
  set it runs to the end of the method. A timer set at \<open>now\<close> with \<open>waitTime\<close> is due at
  \<open>now + max 0 waitTime\<close>; the pending timers are kept in the order they were set,
  which is also the order of their due times while the clock does not go back. The
  run records the times at which a caller passes \<^verbatim>\<open>this.requestCount++\<close>, that is, is
  admitted. It is \<open>None\<close> when the events cannot happen: a timer fires that was not
  set or is not due, or the clock goes back.
\<close>

datatype event = Call int | Fire int

record Run =
  governor :: Governor
  pending :: "int list"
  admitted :: "int list"
  clock :: int

fun step :: "OpenWeatherConfig \<Rightarrow> event \<Rightarrow> Run \<Rightarrow> Run option" where
  "step cfg (Call now) r =
     (if now < clock r then None
      else (case checkRateLimit_enter cfg now (governor r) of
              (Admitted, g) \<Rightarrow>
                Some (r\<lparr>governor := g, admitted := admitted r @ [now], clock := now\<rparr>)
            | (Waits waitTime, g) \<Rightarrow>
                Some (r\<lparr>governor := g, pending := pending r @ [now + max 0 waitTime],
                        clock := now\<rparr>)))"
| "step cfg (Fire now) r =
     (case pending r of
        [] \<Rightarrow> None
      | due # rest \<Rightarrow>
          if now < clock r \<or> now < due then None
          else Some (r\<lparr>governor := checkRateLimit_resume now (governor r), pending := rest,
                       admitted := admitted r @ [now], clock := now\<rparr>))"

fun run :: "OpenWeatherConfig \<Rightarrow> event list \<Rightarrow> Run \<Rightarrow> Run option" where
  "run cfg [] r = Some r"
| "run cfg (e # es) r = (case step cfg e r of None \<Rightarrow> None | Some r1 \<Rightarrow> run cfg es r1)"

definition initialRun :: Run where
  "initialRun = \<lparr>governor = \<lparr>lastRequestTime = 0, requestCount = 0\<rparr>, pending = [],
     admitted = [], clock = 0\<rparr>"

subsection \<open>makeRequest\<close>

text \<open>
  What one attempt of the retry loop meets. \<open>Returned\<close>: \<^verbatim>\<open>fetch\<close> resolves with
  \<^verbatim>\<open>response.ok\<close> and \<^verbatim>\<open>response.json()\<close> resolves with the data. \<open>NotOk\<close>: \<^verbatim>\<open>fetch\<close>
  resolves with \<^verbatim>\<open>!response.ok\<close> and \<^verbatim>\<open>errorData\<close> is a value whose \<^verbatim>\<open>message\<close> can be
  read (any JSON value but \<^verbatim>\<open>null\<close>, or \<^verbatim>\<open>{}\<close> by \<^verbatim>\<open>.catch(() => ({}))\<close> when the body is
  not JSON); the arguments are \<^verbatim>\<open>response.status\<close>, the text the template literal makes
  of \<^verbatim>\<open>errorData.message\<close> (\<open>None\<close> when there is no such property or when it is a falsy
  value other than the empty string) and \<^verbatim>\<open>response.statusText\<close>.
  \<open>Threw\<close>: anything else the \<^verbatim>\<open>try\<close> block throws, an \<^verbatim>\<open>Error\<close> with the given
  message: \<^verbatim>\<open>fetch\<close> rejects (network failure, abort), \<^verbatim>\<open>response.json()\<close> of a
  response that is \<^verbatim>\<open>ok\<close> rejects, or the body of a response that is not \<^verbatim>\<open>ok\<close> is the
  JSON value \<^verbatim>\<open>null\<close>, so that reading \<^verbatim>\<open>errorData.message\<close> throws a \<^verbatim>\<open>TypeError\<close>
  inside the \<^verbatim>\<open>try\<close> block (whatever the status, no message with the status is built).
  \<open>aborted\<close> is what \<^verbatim>\<open>signal?.aborted\<close> gives when the \<^verbatim>\<open>catch\<close> block reads it
  (\<open>False\<close> when no signal was passed).
\<close>

datatype 'a fetched = Returned 'a | NotOk nat "string option" string | Threw string

record 'a attempt =
  outcome :: "'a fetched"
  aborted :: bool

text \<open>The effects of a run of the loop: the number of \<^verbatim>\<open>fetch\<close> calls and the delays
  of the timers it has awaited, in order.\<close>

record effects =
  fetches :: nat
  sleeps :: "int list"

text \<open>
  The \<^verbatim>\<open>try\<close> block of one attempt:
  \<^verbatim>\<open>
  const response = await fetch(url, fetchOptions);
  if (!response.ok) {
    const errorData = await response.json().catch(() => ({}));
    throw new Error(
      `OpenWeather API error ${response.status}: ${errorData.message || response.statusText}`);
  }
  return await response.json();
  \<close>
\<close>

definition tryBlock :: "'a fetched \<Rightarrow> jsError + 'a" where
  "tryBlock f =
     (case f of
        Returned data \<Rightarrow> Inr data
      | NotOk status msg statusText \<Rightarrow>
          Inl (Error (''OpenWeather API error '' @ toString status @ '': '' @
                 (case msg of Some m \<Rightarrow> if m \<noteq> [] then m else statusText
                  | None \<Rightarrow> statusText)))
      | Threw m \<Rightarrow> Inl (Error m))"

text \<open>\<^verbatim>\<open>error instanceof Error && error.message.includes("4")\<close>\<close>

definition messageIncludes4 :: "jsError \<Rightarrow> bool" where
  "messageIncludes4 e = (case e of Error m \<Rightarrow> includes_str m ''4'' | ThrownUndefined \<Rightarrow> False)"

text \<open>
  \<^verbatim>\<open>
  const { attempts = 3, delay = 1000 } = this.config.retry || {};
  let lastError: Error;
  for (let attempt = 1; attempt <= attempts; attempt++) {
    try { ... }
    catch (error) {
      lastError = error as Error;
      if (signal?.aborted) throw new Error("Request cancelled");
      // Don't retry on 4xx errors (client errors)
      if (error instanceof Error && error.message.includes("4")) throw error;
      // Wait before retry (except on last attempt)
      if (attempt < attempts)
        await new Promise((resolve) => setTimeout(resolve, delay * attempt));
    }
  }
  throw lastError!;
  \<close>
  \<open>env attempt\<close> is what attempt number \<open>attempt\<close> meets. \<open>lastError\<close> is
  \<^verbatim>\<open>undefined\<close> until an attempt has failed. The two constants of the loop carry a
  prime (\<open>attempts'\<close>, \<open>delay'\<close>), the plain names being the fields of the
  configuration.
\<close>

function retryLoop ::
  "(int \<Rightarrow> 'a attempt) \<Rightarrow> int \<Rightarrow> int \<Rightarrow> int \<Rightarrow> jsError \<Rightarrow> effects \<Rightarrow> (jsError + 'a) \<times> effects" where
  "retryLoop env attempts' delay' attempt lastError eff =
     (if attempt \<le> attempts' then
        (let eff1 = eff\<lparr>fetches := fetches eff + 1\<rparr> in
         case tryBlock (outcome (env attempt)) of
           Inr data \<Rightarrow> (Inr data, eff1)
         | Inl err \<Rightarrow>
             if aborted (env attempt) then (Inl (Error ''Request cancelled''), eff1)
             else if messageIncludes4 err then (Inl err, eff1)
             else retryLoop env attempts' delay' (attempt + 1) err
                    (if attempt < attempts'
                     then eff1\<lparr>sleeps := sleeps eff1 @ [delay' * attempt]\<rparr> else eff1))
      else (Inl lastError, eff))"
  by pat_completeness auto
termination
  by (relation "measure (\<lambda>(env, attempts', delay', attempt, lastError, eff). nat (attempts' + 1 - attempt))")
     auto

declare retryLoop.simps [simp del]

text \<open>
  The whole method, called when no other caller is suspended in the governor:
  \<^verbatim>\<open>await this.checkRateLimit()\<close>, then the loop.
\<close>

definition makeRequest ::
  "OpenWeatherConfig \<Rightarrow> int \<Rightarrow> int \<Rightarrow> (int \<Rightarrow> 'a attempt) \<Rightarrow> Governor
     \<Rightarrow> ((jsError + 'a) \<times> effects) \<times> Governor" where
  "makeRequest cfg now woken env g =
     (case checkRateLimit cfg now woken g of
        (waited, g1) \<Rightarrow>
          (retryLoop env (attemptsOf cfg) (delayOf cfg) 1 ThrownUndefined
             \<lparr>fetches = 0, sleeps = (case waited of None \<Rightarrow> [] | Some waitTime \<Rightarrow> [waitTime])\<rparr>,
           g1))"

text \<open>
  The test by which a caller tells a cancellation from an error
  (hooks/useWeatherData.ts): \<^verbatim>\<open>err instanceof Error && err.message !== "Request cancelled"\<close>
  guards the code that shows the error.
\<close>

definition isCancellation :: "jsError \<Rightarrow> bool" where
  "isCancellation e = (e = Error ''Request cancelled'')"

subsection \<open>Example environments\<close>

definition always :: "'a fetched \<Rightarrow> int \<Rightarrow> 'a attempt" where
  "always f attempt = \<lparr>outcome = f, aborted = False\<rparr>"

definition defaults :: OpenWeatherConfig where
  "defaults = \<lparr>rateLimit = None, retry = None\<rparr>"

definition twoPerSecond :: OpenWeatherConfig where
  "twoPerSecond = \<lparr>rateLimit = Some \<lparr>requests = 2, window = 1000\<rparr>, retry = None\<rparr>"

subsection \<open>How an attempt ends\<close>

text \<open>
  An attempt is \<open>retried\<close> when its \<^verbatim>\<open>try\<close> block throws, the signal is not aborted and
  the message has no "4": the loop goes on to the next attempt. It is \<open>cancelledAt\<close>
  when its \<^verbatim>\<open>try\<close> block throws and the \<^verbatim>\<open>catch\<close> block finds the signal aborted.
\<close>

definition retried :: "'a attempt \<Rightarrow> bool" where
  "retried a = (case tryBlock (outcome a) of
                  Inr data \<Rightarrow> False
                | Inl err \<Rightarrow> \<not> aborted a \<and> \<not> messageIncludes4 err)"

definition cancelledAt :: "'a attempt \<Rightarrow> bool" where
  "cancelledAt a = (aborted a \<and> isl (tryBlock (outcome a)))"

definition gatewayTimeout :: "int \<Rightarrow> OpenWeatherCurrentResponse attempt" where
  "gatewayTimeout = always (NotOk 504 None ''Gateway Timeout'')"

definition serviceUnavailable :: "int \<Rightarrow> OpenWeatherCurrentResponse attempt" where
  "serviceUnavailable = always (NotOk 503 None ''Service Unavailable'')"

subsection \<open>When the signal is aborted\<close>

text \<open>
  The loop reads the signal in one place, the \<^verbatim>\<open>catch\<close> block; it does not read it
  before calling \<^verbatim>\<open>fetch\<close>, and the timer it awaits between two attempts does not listen
  to it. What an aborted signal does to the run therefore depends on when the caller
  aborts it:
  \<^item> \<open>DuringFetch i\<close>: while the \<^verbatim>\<open>try\<close> block of attempt \<open>i\<close> is suspended (in \<^verbatim>\<open>fetch\<close> or in
    \<^verbatim>\<open>response.json()\<close>). The pending promise rejects with an \<^verbatim>\<open>AbortError\<close>.
  \<^item> \<open>DuringWait i\<close>: while the loop awaits the timer that follows the failed attempt
    \<open>i\<close> (for \<open>i = 0\<close>: before the first attempt, for instance while
    \<^verbatim>\<open>checkRateLimit\<close> waits). The timer runs to its end and attempt \<open>i + 1\<close> calls
    \<^verbatim>\<open>fetch\<close> with a signal that is already aborted: the call rejects at once with an
    \<^verbatim>\<open>AbortError\<close>.
  \<^item> \<open>Never\<close>: not while the loop runs.

  \<open>abortedBy c j\<close> is \<^verbatim>\<open>signal.aborted\<close> as the \<^verbatim>\<open>catch\<close> block of attempt \<open>j\<close> reads it, and
  \<open>meets server abortMessage c\<close> is the environment of the loop when the server would
  answer attempt \<open>j\<close> with \<open>server j\<close> and the \<^verbatim>\<open>AbortError\<close> has the message
  \<open>abortMessage\<close>. \<open>startedBefore c\<close> is the number of \<^verbatim>\<open>fetch\<close> calls made before the
  signal is aborted.
\<close>

datatype cancellation = Never | DuringFetch int | DuringWait int

definition abortedBy :: "cancellation \<Rightarrow> int \<Rightarrow> bool" where
  "abortedBy c j = (case c of Never \<Rightarrow> False | DuringFetch i \<Rightarrow> i \<le> j | DuringWait i \<Rightarrow> i < j)"

definition meets :: "(int \<Rightarrow> 'a fetched) \<Rightarrow> string \<Rightarrow> cancellation \<Rightarrow> int \<Rightarrow> 'a attempt" where
  "meets server abortMessage c j =
     (if abortedBy c j then \<lparr>outcome = Threw abortMessage, aborted = True\<rparr>
      else \<lparr>outcome = server j, aborted = False\<rparr>)"

definition startedBefore :: "cancellation \<Rightarrow> nat option" where
  "startedBefore c = (case c of Never \<Rightarrow> None | DuringFetch i \<Rightarrow> Some (nat i) | DuringWait i \<Rightarrow> Some (nat i))"

text \<open>A server that is down, and the message of the \<^verbatim>\<open>AbortError\<close> of a browser.\<close>

definition unavailable :: "int \<Rightarrow> OpenWeatherCurrentResponse fetched" where
  "unavailable j = NotOk 503 None ''Service Unavailable''"

definition abortMessage :: string where
  "abortMessage = ''The operation was aborted.''"

subsection \<open>getCurrentWeather: the map of requests in flight\<close>

text \<open>
  \<^verbatim>\<open>
  async getCurrentWeather(coordinates, signal?) {
    const cacheKey = `current-${coordinates.lat}-${coordinates.lon}`;
    if (this.requestQueue.has(cacheKey)) return this.requestQueue.get(cacheKey)!;
    const requestPromise = (async () => {
      try {
        const url = this.buildUrl("2.5/weather", { lat: coordinates.lat, lon: coordinates.lon });
        const data = await this.makeRequest<OpenWeatherCurrentResponse>(url, signal);
        return this.transformCurrentWeather(data);
      } finally {
        this.requestQueue.delete(cacheKey);
      }
    })();
    this.requestQueue.set(cacheKey, requestPromise);
    return requestPromise;
  }
  \<close>
  A promise is a number; \<open>settled\<close> maps the promises that have settled to their
  outcome (a pending promise is not in its domain), and \<open>promiseCount\<close> is the number
  of promises created, so the next one. \<open>requestQueue\<close> is the private
  \<^verbatim>\<open>Map<string, Promise<any>>\<close>. Two fields record what the client does on the network:
  \<open>started\<close> logs every invocation of \<^verbatim>\<open>makeRequest\<close>, by the promise it works for and
  its URL, and \<open>fetchCalls\<close> counts the calls of \<^verbatim>\<open>fetch\<close>, the network requests.

  As for the governor, the method is two uninterrupted pieces. The call
  (\<open>getCurrentWeather_call\<close>) runs from the entry to the \<^verbatim>\<open>return\<close>. The body of the
  inner \<^verbatim>\<open>async\<close> function starts within it. When \<^verbatim>\<open>buildUrl\<close> returns, the body is
  suspended inside \<^verbatim>\<open>makeRequest\<close>, at its first \<^verbatim>\<open>await\<close>, before \<^verbatim>\<open>requestQueue.set\<close>
  runs. When \<^verbatim>\<open>buildUrl\<close> throws (\<^verbatim>\<open>new URL\<close> rejects a base URL that is not absolute), the
  \<^verbatim>\<open>finally\<close> block runs at once, deleting an entry that is not there yet, the promise
  is rejected with the error, and \<^verbatim>\<open>requestQueue.set\<close> then stores the rejected
  promise: no request is started. The completion (\<open>getCurrentWeather_settle\<close>) runs when
  the \<^verbatim>\<open>makeRequest\<close> that the call started has settled, \<open>completed\<close> being its result
  and its effects: the transformation, the \<^verbatim>\<open>finally\<close> block and the settling of the promise.
  What a caller receives is the outcome of the promise it was handed. The textual form
  of a number (\<open>numberToString\<close>) and \<^verbatim>\<open>buildUrl\<close> are parameters; the argument
  \<^verbatim>\<open>coordinates\<close> carries a prime, the plain name being a field of \<open>City\<close>.
\<close>

record Client =
  requestQueue :: "string \<rightharpoonup> nat"
  settled :: "nat \<rightharpoonup> jsError + WeatherData"
  promiseCount :: nat
  started :: "(nat \<times> string) list"
  fetchCalls :: nat

definition cacheKeyOf :: "(number \<Rightarrow> string) \<Rightarrow> Coordinates \<Rightarrow> string" where
  "cacheKeyOf numberToString coordinates' =
     ''current-'' @ numberToString (lat coordinates') @ ''-'' @ numberToString (lon coordinates')"

definition getCurrentWeather_call ::
  "(number \<Rightarrow> string) \<Rightarrow> (Coordinates \<Rightarrow> jsError + string) \<Rightarrow> Coordinates \<Rightarrow> Client
     \<Rightarrow> nat \<times> Client" where
  "getCurrentWeather_call numberToString buildUrl coordinates' c =
     (let cacheKey = cacheKeyOf numberToString coordinates' in
      case requestQueue c cacheKey of
        Some inFlight \<Rightarrow> (inFlight, c)
      | None \<Rightarrow>
          (let requestPromise = promiseCount c;
               c1 = (case buildUrl coordinates' of
                       Inr url \<Rightarrow>
                         c\<lparr>promiseCount := promiseCount c + 1,
                           started := started c @ [(requestPromise, url)]\<rparr>
                     | Inl err \<Rightarrow>
                         c\<lparr>promiseCount := promiseCount c + 1,
                           requestQueue := (requestQueue c)(cacheKey := None),
                           settled := (settled c)(requestPromise \<mapsto> Inl err)\<rparr>)
           in (requestPromise,
               c1\<lparr>requestQueue := (requestQueue c1)(cacheKey \<mapsto> requestPromise)\<rparr>)))"


text \<open>\<open>n\<close> calls with the same coordinates, one after the other, none of them
  separated from the next by a completion: the promises handed out, in order.\<close>

fun calls ::
  "nat \<Rightarrow> (number \<Rightarrow> string) \<Rightarrow> (Coordinates \<Rightarrow> jsError + string) \<Rightarrow> Coordinates \<Rightarrow> Client
     \<Rightarrow> nat list \<times> Client" where
  "calls 0 numberToString buildUrl coordinates' c = ([], c)"
| "calls (Suc n) numberToString buildUrl coordinates' c =
     (case getCurrentWeather_call numberToString buildUrl coordinates' c of
        (p, c1) \<Rightarrow>
          (case calls n numberToString buildUrl coordinates' c1 of
             (ps, c2) \<Rightarrow> (p # ps, c2)))"

definition newClient :: Client where
  "newClient = \<lparr>requestQueue = Map.empty, settled = Map.empty, promiseCount = 0, started = [],
                fetchCalls = 0\<rparr>"

definition wholeNumber :: "number \<Rightarrow> string" where
  "wholeNumber x = toString (nat \<lfloor>x\<rfloor>)"


definition invalidBaseUrl :: "Coordinates \<Rightarrow> jsError + string" where
  "invalidBaseUrl coordinates' = Inl (Error ''Invalid URL'')"

section \<open>The persisted cache (hooks/useLocalStorage.ts)\<close>

text \<open>
  The values the hooks keep are JSON data. A value of the hooks' type parameter is
  \<^verbatim>\<open>undefined\<close> or a JSON value; the keys of an object are distinct.
\<close>

datatype json =
  JNull | JBool bool | JNum number | JStr string | JArr "json list" | JObj "(string \<times> json) list"

datatype jsval = Undefined | Val json

text \<open>
  \<^verbatim>\<open>window.localStorage\<close> maps keys to strings. The string that
  \<^verbatim>\<open>setItem(key, JSON.stringify(v))\<close> leaves under a key is represented by \<open>v\<close>
  itself: for a JSON value it is the text that \<^verbatim>\<open>JSON.parse\<close> reads back as that value,
  and for \<^verbatim>\<open>undefined\<close> (\<^verbatim>\<open>JSON.stringify(undefined)\<close> is \<^verbatim>\<open>undefined\<close>, which
  \<^verbatim>\<open>setItem\<close> stores as the string "undefined") it is a text that \<^verbatim>\<open>JSON.parse\<close> rejects.
  \<open>quotaExceeded\<close> says that \<^verbatim>\<open>setItem\<close> throws. \<open>storedValue\<close> is the \<^verbatim>\<open>useState\<close>
  cell of \<^verbatim>\<open>useLocalStorage\<close>, which \<^verbatim>\<open>useLocalStorageWithExpiry\<close> calls \<^verbatim>\<open>value\<close>. The
  code runs in a browser (\<^verbatim>\<open>typeof window !== "undefined"\<close>).
\<close>

record Hook =
  storage :: "string \<rightharpoonup> jsval"
  quotaExceeded :: bool
  storedValue :: jsval

text \<open>The argument of a setter, \<^verbatim>\<open>T | ((prev: T) => T)\<close>, and
  \<^verbatim>\<open>value instanceof Function ? value(storedValue) : value\<close>.\<close>

datatype setter = Direct jsval | Updater "jsval \<Rightarrow> jsval"

definition resolve :: "setter \<Rightarrow> jsval \<Rightarrow> jsval" where
  "resolve v prev = (case v of Direct x \<Rightarrow> x | Updater f \<Rightarrow> f prev)"

text \<open>
  \<^verbatim>\<open>useLocalStorage\<close>:
  \<^verbatim>\<open>
  const setValue = (value) => {
    try {
      const valueToStore = value instanceof Function ? value(storedValue) : value;
      setStoredValue(valueToStore);
      if (typeof window !== "undefined")
        window.localStorage.setItem(key, JSON.stringify(valueToStore));
    } catch (error) { console.warn(...); }
  };
  const removeValue = () => {
    try {
      setStoredValue(initialValue);
      if (typeof window !== "undefined") window.localStorage.removeItem(key);
    } catch (error) { console.warn(...); }
  };
  \<close>
\<close>

definition setValue :: "string \<Rightarrow> setter \<Rightarrow> Hook \<Rightarrow> Hook" where
  "setValue key v h =
     (let valueToStore = resolve v (storedValue h);
          h1 = h\<lparr>storedValue := valueToStore\<rparr>
      in if quotaExceeded h1 then h1
         else h1\<lparr>storage := (storage h1)(key \<mapsto> valueToStore)\<rparr>)"

definition removeValue :: "string \<Rightarrow> jsval \<Rightarrow> Hook \<Rightarrow> Hook" where
  "removeValue key initialValue h =
     h\<lparr>storedValue := initialValue, storage := (storage h)(key := None)\<rparr>"

text \<open>
  \<^verbatim>\<open>useLocalStorageWithExpiry(key, initialValue, expiryInMinutes?)\<close>:
  \<^verbatim>\<open>
  const [value, setValue, removeValue] = useLocalStorage(key, initialValue);
  const setValueWithExpiry = (newValue) => {
    if (!expiryInMinutes) { setValue(newValue); return; }
    const valueToStore = newValue instanceof Function ? newValue(value) : newValue;
    const expiryTime = Date.now() + expiryInMinutes * 60 * 1000;
    const dataWithExpiry = { value: valueToStore, expiry: expiryTime };
    if (typeof window !== "undefined") {
      try {
        window.localStorage.setItem(key, JSON.stringify(dataWithExpiry));
        setValue(valueToStore);
      } catch (error) { console.warn(...); }
    }
  };
  \<close>
  \<^verbatim>\<open>!expiryInMinutes\<close> holds of a missing argument and of 0. \<^verbatim>\<open>JSON.stringify\<close> leaves
  out a property whose value is \<^verbatim>\<open>undefined\<close>.
\<close>

definition dataWithExpiry :: "jsval \<Rightarrow> number \<Rightarrow> json" where
  "dataWithExpiry valueToStore expiryTime =
     JObj ((case valueToStore of Undefined \<Rightarrow> [] | Val j \<Rightarrow> [(''value'', j)])
           @ [(''expiry'', JNum expiryTime)])"

definition setValueWithExpiry :: "string \<Rightarrow> number option \<Rightarrow> int \<Rightarrow> setter \<Rightarrow> Hook \<Rightarrow> Hook" where
  "setValueWithExpiry key expiryInMinutes now newValue h =
     (case expiryInMinutes of
        None \<Rightarrow> setValue key newValue h
      | Some minutes \<Rightarrow>
          if minutes = 0 then setValue key newValue h
          else
            (let valueToStore = resolve newValue (storedValue h);
                 expiryTime = of_int now + minutes * 60 * 1000
             in if quotaExceeded h then h
                else setValue key (Direct valueToStore)
                       (h\<lparr>storage := (storage h)(key \<mapsto> Val (dataWithExpiry valueToStore expiryTime))\<rparr>)))"

text \<open>
  \<^verbatim>\<open>
  const checkExpiry = () => {
    try {
      const item = window.localStorage.getItem(key);
      if (item) {
        const { value: storedValue, expiry } = JSON.parse(item);
        if (Date.now() > expiry) removeValue(); else setValue(storedValue);
      }
    } catch (error) { console.warn(...); removeValue(); }
  };
  \<close>
  It runs when the hook is mounted and every minute after, when \<^verbatim>\<open>expiryInMinutes\<close> is
  set. Destructuring \<^verbatim>\<open>null\<close> throws; a property that the parsed value does not have is
  \<^verbatim>\<open>undefined\<close>. In \<^verbatim>\<open>Date.now() > expiry\<close> the right operand is converted to a number:
  \<^verbatim>\<open>undefined\<close> and an object to \<^verbatim>\<open>NaN\<close>, with which every comparison is false, \<^verbatim>\<open>null\<close>
  to 0, a boolean to 0 or 1. The conversion of a string and of an array is the parameter
  \<open>toNumber\<close> (\<open>None\<close> for \<^verbatim>\<open>NaN\<close>).
\<close>

definition property :: "string \<Rightarrow> json \<Rightarrow> jsval" where
  "property key j =
     (case j of
        JObj members \<Rightarrow> (case map_of members key of None \<Rightarrow> Undefined | Some v \<Rightarrow> Val v)
      | _ \<Rightarrow> Undefined)"

definition exceeds :: "(json \<Rightarrow> number option) \<Rightarrow> int \<Rightarrow> jsval \<Rightarrow> bool" where
  "exceeds toNumber now expiry =
     (case expiry of
        Undefined \<Rightarrow> False
      | Val JNull \<Rightarrow> 0 < now
      | Val (JBool b) \<Rightarrow> (if b then 1 else 0) < now
      | Val (JNum x) \<Rightarrow> x < of_int now
      | Val (JObj members) \<Rightarrow> False
      | Val j \<Rightarrow> (case toNumber j of None \<Rightarrow> False | Some x \<Rightarrow> x < of_int now))"

definition checkExpiry ::
  "(json \<Rightarrow> number option) \<Rightarrow> string \<Rightarrow> jsval \<Rightarrow> int \<Rightarrow> Hook \<Rightarrow> Hook" where
  "checkExpiry toNumber key initialValue now h =
     (case storage h key of
        None \<Rightarrow> h
      | Some Undefined \<Rightarrow> removeValue key initialValue h
      | Some (Val JNull) \<Rightarrow> removeValue key initialValue h
      | Some (Val parsed) \<Rightarrow>
          if exceeds toNumber now (property ''expiry'' parsed)
          then removeValue key initialValue h
          else setValue key (Direct (property ''value'' parsed)) h)"

subsection \<open>The effect that runs the check\<close>

text \<open>
  \<^verbatim>\<open>
  useEffect(() => {
    if (typeof window === "undefined" || !expiryInMinutes) return;
    const checkExpiry = () => { ... };
    checkExpiry();
    const interval = setInterval(checkExpiry, 60000);
    return () => clearInterval(interval);
  }, [key, expiryInMinutes, setValue, removeValue]);
  \<close>
  \<^verbatim>\<open>setValue\<close> is made by \<^verbatim>\<open>useCallback\<close> with the dependencies \<^verbatim>\<open>[key, storedValue]\<close>: it is
  a new function after every render in which \<^verbatim>\<open>storedValue\<close> has changed. The effect
  therefore runs again, and calls \<^verbatim>\<open>checkExpiry\<close>, after every update of the state that
  changes the value, the updates that \<^verbatim>\<open>checkExpiry\<close> makes among them.
  (\<^verbatim>\<open>removeValue\<close> depends on \<^verbatim>\<open>[key, initialValue]\<close>, and the caller is taken to pass the
  same \<^verbatim>\<open>initialValue\<close> at every render.)

  \<^verbatim>\<open>setStoredValue(next)\<close> changes the state unless \<^verbatim>\<open>Object.is(prev, next)\<close>. A value
  that \<^verbatim>\<open>JSON.parse\<close> or the caller has just made is, when it is an object or an array, a
  new one and differs from the one in the state; \<^verbatim>\<open>undefined\<close>, \<^verbatim>\<open>null\<close>, booleans, numbers
  and strings are compared by value.
\<close>

definition differs :: "jsval \<Rightarrow> jsval \<Rightarrow> bool" where
  "differs prev next =
     (case next of
        Val (JObj members) \<Rightarrow> True
      | Val (JArr elements) \<Rightarrow> True
      | _ \<Rightarrow> prev \<noteq> next)"

text \<open>
  The runs of the effect that follow one another without the caller doing anything:
  \<^verbatim>\<open>checkExpiry\<close> runs, and when it has found an item (it then calls one of the two
  setters) and the state has changed, the component renders again and the effect runs
  again. The chain need not end (an item that cannot be replaced because the storage is
  full is read again and again), so the runs are counted: \<open>None\<close> when \<open>fuel\<close> runs do
  not reach a render that leaves the state as it is.
\<close>

fun effectRuns ::
  "nat \<Rightarrow> (json \<Rightarrow> number option) \<Rightarrow> string \<Rightarrow> jsval \<Rightarrow> int \<Rightarrow> Hook \<Rightarrow> Hook option" where
  "effectRuns 0 toNumber key initialValue now h = None"
| "effectRuns (Suc fuel) toNumber key initialValue now h =
     (let h1 = checkExpiry toNumber key initialValue now h
      in if storage h key \<noteq> None \<and> differs (storedValue h) (storedValue h1)
         then effectRuns fuel toNumber key initialValue now h1
         else Some h1)"

text \<open>
  A write through the hook with \<^verbatim>\<open>expiryInMinutes\<close> set, and what follows it: when
  \<^verbatim>\<open>setValueWithExpiry\<close> has called \<^verbatim>\<open>setValue\<close> (the first \<^verbatim>\<open>setItem\<close> did not throw) and
  the state has changed, the effect runs.
\<close>

definition writeThrough ::
  "nat \<Rightarrow> (json \<Rightarrow> number option) \<Rightarrow> string \<Rightarrow> jsval \<Rightarrow> number \<Rightarrow> int \<Rightarrow> setter \<Rightarrow> Hook
     \<Rightarrow> Hook option" where
  "writeThrough fuel toNumber key initialValue minutes now newValue h =
     (let h1 = setValueWithExpiry key (Some minutes) now newValue h
      in if minutes \<noteq> 0 \<and> \<not> quotaExceeded h \<and> differs (storedValue h) (storedValue h1)
         then effectRuns fuel toNumber key initialValue now h1
         else Some h1)"

subsection \<open>Example: the weather of city 123, cached for 10 minutes\<close>

definition emptyCache :: Hook where
  "emptyCache = \<lparr>storage = Map.empty, quotaExceeded = False, storedValue = Val JNull\<rparr>"

definition temp22 :: jsval where
  "temp22 = Val (JObj [(''temp'', JNum 22)])"

definition written :: Hook where
  "written = setValueWithExpiry ''weather_123'' (Some 10) 1700000000000 (Direct temp22) emptyCache"

definition notANumber :: "json \<Rightarrow> number option" where
  "notANumber j = None"

section \<open>Theorems\<close>

subsection \<open>Temperature conversion\<close>

text \<open>Evaluation of the rounding on numerals.\<close>

lemma floor_rat_numeral_divide [simp]:
  "\<lfloor>(numeral a :: rat) / numeral b\<rfloor> = numeral a div numeral b"
  using floor_divide_of_int_eq [of "numeral a" "numeral b", where ?'a = rat] by simp

lemma ceiling_rat_numeral_divide [simp]:
  "\<lceil>(numeral a :: rat) / numeral b\<rceil> = - ((- numeral a) div numeral b)"
  using ceiling_divide_eq_div [of "numeral a" "numeral b", where ?'a = rat] by simp

lemmas double_eval =
  roundToDouble_def nearest_def quantum_def floorLog2_def bitLength.simps pow2.simps
  roundHalfEven_def

text \<open>The rounding is a rounding: the nearest integer is at most one half away, the
  quantum is positive, and \<open>nearest x\<close> is at most half a quantum away from \<open>x\<close>.\<close>

lemma roundHalfEven_near: "\<bar>of_int (roundHalfEven m) - m\<bar> \<le> 1 / 2"
proof -
  have "of_int \<lfloor>m\<rfloor> \<le> m" and "m < of_int \<lfloor>m\<rfloor> + 1"
    by linarith+
  then show ?thesis
    by (auto simp add: roundHalfEven_def abs_le_iff)
qed

lemma pow2_positive: "0 < pow2 e"
proof (induction e rule: pow2.induct)
  case (1 e)
  show ?case
  proof (cases "e = 0")
    case True
    then show ?thesis by (simp add: pow2.simps)
  next
    case False
    note nz = this
    show ?thesis
    proof (cases "0 < e")
      case True
      with nz 1(1) have "0 < pow2 (e - 1)" by simp
      with nz True show ?thesis by (subst pow2.simps) simp
    next
      case False
      with nz 1(2) have "0 < pow2 (e + 1)" by simp
      with nz False show ?thesis by (subst pow2.simps) simp
    qed
  qed
qed

lemma nearest_near: "\<bar>nearest x - x\<bar> \<le> quantum x / 2"
proof -
  have q: "0 < quantum x"
    by (simp add: quantum_def pow2_positive)
  have "\<bar>of_int (roundHalfEven (x / quantum x)) - x / quantum x\<bar> \<le> 1 / 2"
    by (rule roundHalfEven_near)
  then have "\<bar>of_int (roundHalfEven (x / quantum x)) - x / quantum x\<bar> * quantum x
      \<le> 1 / 2 * quantum x"
    using q by (simp only: mult_le_cancel_right_pos)
  moreover have "\<bar>of_int (roundHalfEven (x / quantum x)) - x / quantum x\<bar> * quantum x
      = \<bar>nearest x - x\<bar>"
  proof -
    have "\<bar>of_int (roundHalfEven (x / quantum x)) - x / quantum x\<bar> * quantum x
        = \<bar>(of_int (roundHalfEven (x / quantum x)) - x / quantum x) * quantum x\<bar>"
      using q by (simp add: abs_mult)
    also have "(of_int (roundHalfEven (x / quantum x)) - x / quantum x) * quantum x
        = nearest x - x"
      using q by (simp add: nearest_def left_diff_distrib)
    finally show ?thesis .
  qed
  ultimately show ?thesis by simp
qed

text \<open>The literal \<^verbatim>\<open>0.1\<close> denotes \<open>oneTenth\<close>; 100 and 212 are doubles.\<close>

lemma roundToDouble_oneTenth: "roundToDouble (1 / 10) = oneTenth"
  by (simp add: oneTenth_def double_eval)

lemma representable_examples: "representable 100 \<and> representable 212 \<and> \<not> representable (1 / 10)"
  by (simp add: representable_def double_eval)

text \<open>Over the rationals, without rounding, the two formulas are inverse to each other.\<close>

lemma formulas_inverse_over_rationals:
  "(((x :: rat) * 9) / 5 + 32 - 32) * 5 / 9 = x \<and> ((((y :: rat) - 32) * 5) / 9 * 9) / 5 + 32 = y"
  by (simp add: field_simps)




subsection \<open>Strings\<close>

lemma startsWith_append: "startsWith (sub @ q) sub"
  by (induction sub) auto

lemma includes_str_append: "includes_str (p @ sub @ q) sub"
proof (induction p)
  case Nil
  show ?case by (cases "sub @ q") (use startsWith_append [of sub q] in auto)
next
  case (Cons x p)
  then show ?case by simp
qed

lemma includes_str_suffix: "includes_str (p @ sub) sub"
  using includes_str_append [of p sub "[]"] by simp

lemma startsWith_iff: "startsWith s sub \<longleftrightarrow> (\<exists>q. s = sub @ q)"
  by (induction s sub rule: startsWith.induct) auto

lemma includes_str_iff: "includes_str s sub \<longleftrightarrow> (\<exists>p q. s = p @ sub @ q)"
proof (induction s)
  case Nil
  then show ?case by auto
next
  case (Cons x s)
  show ?case
  proof
    assume "includes_str (x # s) sub"
    then consider "startsWith (x # s) sub" | "includes_str s sub" by auto
    then show "\<exists>p q. x # s = p @ sub @ q"
    proof cases
      case 1
      then obtain q where "x # s = sub @ q" using startsWith_iff by blast
      then have "x # s = [] @ sub @ q" by simp
      then show ?thesis by blast
    next
      case 2
      with Cons obtain p q where "s = p @ sub @ q" by blast
      then have "x # s = (x # p) @ sub @ q" by simp
      then show ?thesis by blast
    qed
  next
    assume "\<exists>p q. x # s = p @ sub @ q"
    then obtain p q where e: "x # s = p @ sub @ q" by blast
    show "includes_str (x # s) sub"
    proof (cases p)
      case Nil
      with e have "startsWith (x # s) sub" using startsWith_iff by simp
      then show ?thesis by simp
    next
      case (Cons y p')
      with e have "s = p' @ sub @ q" by simp
      with Cons.IH have "includes_str s sub" by blast
      then show ?thesis by simp
    qed
  qed
qed

lemma toString_digit: "n < 10 \<Longrightarrow> toString n = [digitChar n]"
  by (subst toString.simps) simp

lemma toString_step: "10 \<le> n \<Longrightarrow> toString n = toString (n div 10) @ [digitChar (n mod 10)]"
  by (subst toString.simps) simp

lemma digitChar_4: "digitChar 4 = CHR ''4''"
  by code_simp

lemma toString_4xx:
  assumes "400 \<le> status" "status \<le> 499"
  shows "toString status = CHR ''4'' # [digitChar (status div 10 mod 10), digitChar (status mod 10)]"
proof -
  have a: "10 \<le> status" and b: "10 \<le> status div 10" and c: "status div 10 div 10 = 4"
    using assms by auto
  have "toString (status div 10 div 10) = [CHR ''4'']"
    unfolding c using toString_digit [of 4] digitChar_4 by simp
  then show ?thesis
    using toString_step [OF a] toString_step [OF b] by simp
qed

lemma toString_1: "toString 1 = ''1''"
  by code_simp

lemma invalid_not_duplicate_message:
  "\<not> includes_str ''Invalid city data: missing required fields'' ''already in your city list''"
  by code_simp

lemma maximum_neq_duplicate:
  "''Maximum '' @ toString m @ '' cities allowed'' \<noteq> n @ '' is already in your city list''"
proof
  assume "''Maximum '' @ toString m @ '' cities allowed'' = n @ '' is already in your city list''"
  then have "last (''Maximum '' @ toString m @ '' cities allowed'')
      = last (n @ '' is already in your city list'')"
    by (rule arg_cong)
  then show False by simp
qed

subsection \<open>Adding a city\<close>

lemma find_dup_None: "\<not> (\<exists>c \<in> set cs. P c) \<Longrightarrow> find P cs = None"
  by (simp add: find_None_iff)

lemma find_dup_Some: "\<exists>c \<in> set cs. P c \<Longrightarrow> \<exists>e. find P cs = Some e"
  by (cases "find P cs") (auto simp: find_None_iff)

text \<open>
  C5, as amended. For every city list and every city with a non-empty id, name and
  country whose id is already present in the list, \<open>addCity\<close> rejects with the error
  \<^verbatim>\<open>`${city.name} is already in your city list`\<close>, whose message contains
  "already in your city list", and the stored list is unchanged.
\<close>

theorem addCity_duplicate_id:
  assumes "id' city \<noteq> []" "name city \<noteq> []" "country city \<noteq> []"
    and "\<exists>c \<in> set (cities st). id' c = id' city"
  shows "fst (addCity maxCitiesOpt now city st) = Inl (Error (name city @ '' is already in your city list''))
       \<and> includes_str (name city @ '' is already in your city list'') ''already in your city list''
       \<and> cities (snd (addCity maxCitiesOpt now city st)) = cities st"
proof -
  from assms(4) have "\<exists>c \<in> set (cities st). id' c = id' city \<or> (name c = name city \<and> country c = country city)"
    by blast
  then obtain e where
    "find (\<lambda>c. id' c = id' city \<or> (name c = name city \<and> country c = country city)) (cities st) = Some e"
    using find_dup_Some [of "cities st" "\<lambda>c. id' c = id' city \<or> (name c = name city \<and> country c = country city)"]
    by blast
  with assms(1-3) have "checkCity (maxCitiesOf maxCitiesOpt) (cities st) city
      = Inl (Error (name city @ '' is already in your city list''))"
    by (simp add: checkCity_def)
  moreover have "includes_str (name city @ '' is already in your city list'') ''already in your city list''"
    using includes_str_suffix [of "name city @ '' is ''" "''already in your city list''"] by simp
  ultimately show ?thesis by (simp add: addCity_def Let_def)
qed

theorem addCity_duplicate_id_witness:
  "fst (addCity None 5 (paris\<lparr>name := ''Paris 2''\<rparr>) (listOf [lyon, paris]))
      = Inl (Error (name (paris\<lparr>name := ''Paris 2''\<rparr>) @ '' is already in your city list''))
   \<and> includes_str (name (paris\<lparr>name := ''Paris 2''\<rparr>) @ '' is already in your city list'')
        ''already in your city list''
   \<and> cities (snd (addCity None 5 (paris\<lparr>name := ''Paris 2''\<rparr>) (listOf [lyon, paris])))
      = cities (listOf [lyon, paris])"
proof -
  have h1: "id' (paris\<lparr>name := ''Paris 2''\<rparr>) \<noteq> []" by (simp add: paris_def)
  have h2: "name (paris\<lparr>name := ''Paris 2''\<rparr>) \<noteq> []" by simp
  have h3: "country (paris\<lparr>name := ''Paris 2''\<rparr>) \<noteq> []" by (simp add: paris_def)
  have h4: "\<exists>c \<in> set (cities (listOf [lyon, paris])). id' c = id' (paris\<lparr>name := ''Paris 2''\<rparr>)"
    by (simp add: listOf_def paris_def)
  show ?thesis by (rule addCity_duplicate_id [OF h1 h2 h3 h4])
qed

text \<open>
  C5, as stated, fails: the validation of the required fields comes first. A city whose
  id is in the list and whose name is empty is rejected with "Invalid city data: missing
  required fields", which does not contain "already in your city list".
\<close>

theorem addCity_duplicate_id_counterexample:
  "id' (paris\<lparr>name := ''''\<rparr>) \<in> set (map id' (cities (listOf [paris])))
   \<and> fst (addCity None 5 (paris\<lparr>name := ''''\<rparr>) (listOf [paris]))
       = Inl (Error ''Invalid city data: missing required fields'')
   \<and> \<not> includes_str ''Invalid city data: missing required fields'' ''already in your city list''"
proof -
  have a: "id' (paris\<lparr>name := ''''\<rparr>) \<in> set (map id' (cities (listOf [paris])))"
    by (simp add: listOf_def)
  have b: "fst (addCity None 5 (paris\<lparr>name := ''''\<rparr>) (listOf [paris]))
      = Inl (Error ''Invalid city data: missing required fields'')"
    by (simp add: addCity_def checkCity_def Let_def)
  from a b invalid_not_duplicate_message show ?thesis by blast
qed

text \<open>
  C6, as amended. For every city list whose length is the configured maximum (20 when
  the option is left out) and every city with a non-empty id, name and country that
  matches no city of the list (neither by id nor by name and country), \<open>addCity\<close>
  rejects with \<^verbatim>\<open>`Maximum ${maxCities} cities allowed`\<close> and the stored list is unchanged.
\<close>

theorem addCity_maximum:
  assumes "id' city \<noteq> []" "name city \<noteq> []" "country city \<noteq> []"
    and "\<not> (\<exists>c \<in> set (cities st). id' c = id' city \<or> (name c = name city \<and> country c = country city))"
    and "length (cities st) = maxCitiesOf maxCitiesOpt"
  shows "fst (addCity maxCitiesOpt now city st)
           = Inl (Error (''Maximum '' @ toString (maxCitiesOf maxCitiesOpt) @ '' cities allowed''))
       \<and> cities (snd (addCity maxCitiesOpt now city st)) = cities st
       \<and> maxCitiesOf None = 20"
proof -
  have "find (\<lambda>c. id' c = id' city \<or> (name c = name city \<and> country c = country city)) (cities st) = None"
    using assms(4) by (rule find_dup_None)
  with assms(1-3,5) have "checkCity (maxCitiesOf maxCitiesOpt) (cities st) city
      = Inl (Error (''Maximum '' @ toString (maxCitiesOf maxCitiesOpt) @ '' cities allowed''))"
    by (simp add: checkCity_def)
  then show ?thesis by (simp add: addCity_def Let_def maxCitiesOf_def)
qed

theorem addCity_maximum_witness:
  "length (cities (listOf [paris])) = maxCitiesOf (Some 1)
   \<and> fst (addCity (Some 1) 5 lyon (listOf [paris])) = Inl (Error ''Maximum 1 cities allowed'')
   \<and> cities (snd (addCity (Some 1) 5 lyon (listOf [paris]))) = cities (listOf [paris])"
proof -
  have h1: "id' lyon \<noteq> []" and h2: "name lyon \<noteq> []" and h3: "country lyon \<noteq> []"
    by (simp_all add: lyon_def)
  have h4: "\<not> (\<exists>c \<in> set (cities (listOf [paris])).
      id' c = id' lyon \<or> (name c = name lyon \<and> country c = country lyon))"
    by (simp add: listOf_def paris_def lyon_def)
  have h5: "length (cities (listOf [paris])) = maxCitiesOf (Some 1)"
    by (simp add: listOf_def maxCitiesOf_def)
  have m: "maxCitiesOf (Some 1) = 1" by (simp add: maxCitiesOf_def)
  have t: "toString (maxCitiesOf (Some 1)) = ''1''" unfolding m by (rule toString_1)
  from addCity_maximum [OF h1 h2 h3 h4 h5, of 5] h5 show ?thesis
    unfolding t by simp
qed

text \<open>
  C6, as stated, fails for the same reason: a new city with an empty id, added to a
  list at its maximum, is rejected with "Invalid city data: missing required fields",
  not with the maximum-reached error.
\<close>

theorem addCity_maximum_counterexample:
  "cities (listOf [paris]) = [paris]
   \<and> length (cities (listOf [paris])) = maxCitiesOf (Some 1)
   \<and> id' paris \<noteq> id' (lyon\<lparr>id' := []\<rparr>)
   \<and> name paris \<noteq> name (lyon\<lparr>id' := []\<rparr>)
   \<and> fst (addCity (Some 1) 5 (lyon\<lparr>id' := []\<rparr>) (listOf [paris]))
       = Inl (Error ''Invalid city data: missing required fields'')
   \<and> fst (addCity (Some 1) 5 (lyon\<lparr>id' := []\<rparr>) (listOf [paris]))
       \<noteq> Inl (Error ''Maximum 1 cities allowed'')"
proof -
  have a: "cities (listOf [paris]) = [paris]
      \<and> length (cities (listOf [paris])) = maxCitiesOf (Some 1)"
    by (simp add: listOf_def maxCitiesOf_def)
  have b: "id' paris \<noteq> id' (lyon\<lparr>id' := []\<rparr>) \<and> name paris \<noteq> name (lyon\<lparr>id' := []\<rparr>)"
    by (simp add: paris_def lyon_def)
  have c: "fst (addCity (Some 1) 5 (lyon\<lparr>id' := []\<rparr>) (listOf [paris]))
       = Inl (Error ''Invalid city data: missing required fields'')"
    by (simp add: addCity_def checkCity_def Let_def)
  have d: "fst (addCity (Some 1) 5 (lyon\<lparr>id' := []\<rparr>) (listOf [paris]))
       \<noteq> Inl (Error ''Maximum 1 cities allowed'')"
    unfolding c by simp
  from a b c d show ?thesis by blast
qed

text \<open>
  C9, as amended. For a city with a non-empty id, name and country, \<open>addCity\<close> rejects
  with \<^verbatim>\<open>`${city.name} is already in your city list`\<close>, the list unchanged, exactly when
  some city of the list has the same id or has the same name and the same country: a
  city whose name and country are those of a listed city is rejected also when its id
  differs, and detection is by id or by the pair, not by id alone.
\<close>

theorem addCity_duplicate_iff:
  assumes "id' city \<noteq> []" "name city \<noteq> []" "country city \<noteq> []"
  shows "(fst (addCity maxCitiesOpt now city st) = Inl (Error (name city @ '' is already in your city list''))
          \<and> cities (snd (addCity maxCitiesOpt now city st)) = cities st)
     = (\<exists>c \<in> set (cities st). id' c = id' city \<or> (name c = name city \<and> country c = country city))"
proof -
  let ?P = "\<lambda>c. id' c = id' city \<or> (name c = name city \<and> country c = country city)"
  let ?dup = "Inl (Error (name city @ '' is already in your city list'')) :: jsError + unit"
  show ?thesis
  proof (cases "find ?P (cities st)")
    case (Some e)
    have ex: "\<exists>c \<in> set (cities st). ?P c"
    proof (rule ccontr)
      assume "\<not> (\<exists>c \<in> set (cities st). ?P c)"
      then have "find ?P (cities st) = None" by (rule find_dup_None)
      with Some show False by simp
    qed
    from Some assms have "checkCity (maxCitiesOf maxCitiesOpt) (cities st) city = ?dup"
      by (simp add: checkCity_def)
    then have "fst (addCity maxCitiesOpt now city st) = ?dup
        \<and> cities (snd (addCity maxCitiesOpt now city st)) = cities st"
      by (simp add: addCity_def Let_def)
    with ex show ?thesis by simp
  next
    case None
    have nex: "\<not> (\<exists>c \<in> set (cities st). ?P c)"
    proof
      assume "\<exists>c \<in> set (cities st). ?P c"
      then obtain e where "find ?P (cities st) = Some e"
        using find_dup_Some [of "cities st" ?P] by blast
      with None show False by simp
    qed
    from None assms have "checkCity (maxCitiesOf maxCitiesOpt) (cities st) city \<noteq> ?dup"
      by (simp add: checkCity_def maximum_neq_duplicate)
    then have "fst (addCity maxCitiesOpt now city st) \<noteq> ?dup"
      by (cases "checkCity (maxCitiesOf maxCitiesOpt) (cities st) city")
         (simp_all add: addCity_def Let_def)
    with nex show ?thesis by simp
  qed
qed

theorem addCity_duplicate_iff_witness:
  "id' (paris\<lparr>id' := ''z''\<rparr>) \<noteq> id' paris
   \<and> fst (addCity None 5 (paris\<lparr>id' := ''z''\<rparr>) (listOf [lyon, paris]))
       = Inl (Error ''Paris is already in your city list'')
   \<and> cities (snd (addCity None 5 (paris\<lparr>id' := ''z''\<rparr>) (listOf [lyon, paris]))) = [lyon, paris]"
proof -
  have h1: "id' (paris\<lparr>id' := ''z''\<rparr>) \<noteq> []" by simp
  have h2: "name (paris\<lparr>id' := ''z''\<rparr>) \<noteq> []" and h3: "country (paris\<lparr>id' := ''z''\<rparr>) \<noteq> []"
    by (simp_all add: paris_def)
  have n: "name (paris\<lparr>id' := ''z''\<rparr>) = ''Paris''" by (simp add: paris_def)
  have ex: "\<exists>c \<in> set (cities (listOf [lyon, paris])).
      id' c = id' (paris\<lparr>id' := ''z''\<rparr>)
      \<or> (name c = name (paris\<lparr>id' := ''z''\<rparr>) \<and> country c = country (paris\<lparr>id' := ''z''\<rparr>))"
    by (simp add: listOf_def paris_def lyon_def)
  have c: "cities (listOf [lyon, paris]) = [lyon, paris]" by (simp add: listOf_def)
  have d: "id' (paris\<lparr>id' := ''z''\<rparr>) \<noteq> id' paris" by (simp add: paris_def)
  from addCity_duplicate_iff [OF h1 h2 h3, of None 5 "listOf [lyon, paris]"] ex d
  show ?thesis unfolding n c by simp
qed

text \<open>
  C9, as stated, fails on a city without an id: its name and country are those of a
  listed city and its (empty) id differs, yet the error is "Invalid city data: missing
  required fields".
\<close>

theorem addCity_duplicate_pair_counterexample:
  "name (paris\<lparr>id' := ''''\<rparr>) = name paris \<and> country (paris\<lparr>id' := ''''\<rparr>) = country paris
   \<and> id' (paris\<lparr>id' := ''''\<rparr>) \<noteq> id' paris
   \<and> fst (addCity None 5 (paris\<lparr>id' := ''''\<rparr>) (listOf [paris]))
       = Inl (Error ''Invalid city data: missing required fields'')
   \<and> \<not> includes_str ''Invalid city data: missing required fields'' ''is already in your city list''"
proof -
  have a: "name (paris\<lparr>id' := ''''\<rparr>) = name paris \<and> country (paris\<lparr>id' := ''''\<rparr>) = country paris
      \<and> id' (paris\<lparr>id' := ''''\<rparr>) \<noteq> id' paris"
    by (simp add: paris_def)
  have b: "fst (addCity None 5 (paris\<lparr>id' := ''''\<rparr>) (listOf [paris]))
      = Inl (Error ''Invalid city data: missing required fields'')"
    by (simp add: addCity_def checkCity_def Let_def)
  have c: "\<not> includes_str ''Invalid city data: missing required fields'' ''is already in your city list''"
    by code_simp
  from a b c show ?thesis by blast
qed

subsection \<open>The response transformer\<close>

lemma ifDefined_feelsLike:
  "feelsLike r = None \<Longrightarrow> ifDefined x (\<lambda>v r. r\<lparr>feelsLike := Some v\<rparr>) r = r\<lparr>feelsLike := x\<rparr>"
  by (cases x) (simp_all add: ifDefined_def)

lemma ifDefined_windDirection:
  "windDirection r = None \<Longrightarrow> ifDefined x (\<lambda>v r. r\<lparr>windDirection := Some v\<rparr>) r = r\<lparr>windDirection := x\<rparr>"
  by (cases x) (simp_all add: ifDefined_def)

lemma ifDefined_windGust:
  "windGust r = None \<Longrightarrow> ifDefined x (\<lambda>v r. r\<lparr>windGust := Some v\<rparr>) r = r\<lparr>windGust := x\<rparr>"
  by (cases x) (simp_all add: ifDefined_def)

lemma ifDefined_visibility:
  "visibility r = None \<Longrightarrow> ifDefined x (\<lambda>v r. r\<lparr>visibility := Some (v / 1000)\<rparr>) r
     = r\<lparr>visibility := map_option (\<lambda>v. v / 1000) x\<rparr>"
  by (cases x) (simp_all add: ifDefined_def)

lemma ifDefined_cloudCover:
  "cloudCover r = None \<Longrightarrow> ifDefined x (\<lambda>v r. r\<lparr>cloudCover := Some v\<rparr>) r = r\<lparr>cloudCover := x\<rparr>"
  by (cases x) (simp_all add: ifDefined_def)

lemma ifDefined_sunrise:
  "sunrise r = None \<Longrightarrow> ifDefined x (\<lambda>v r. r\<lparr>sunrise := Some v\<rparr>) r = r\<lparr>sunrise := x\<rparr>"
  by (cases x) (simp_all add: ifDefined_def)

lemma ifDefined_sunset:
  "sunset r = None \<Longrightarrow> ifDefined x (\<lambda>v r. r\<lparr>sunset := Some v\<rparr>) r = r\<lparr>sunset := x\<rparr>"
  by (cases x) (simp_all add: ifDefined_def)

lemma ifTrue_icon:
  "icon r = None \<Longrightarrow> ifTrue c (\<lambda>r. r\<lparr>icon := Some y\<rparr>) r = r\<lparr>icon := (if c then Some y else None)\<rparr>"
  by (simp add: ifTrue_def)

lemma ifTrue_precipitation:
  "precipitation r = None \<Longrightarrow> ifTrue c (\<lambda>r. r\<lparr>precipitation := Some y\<rparr>) r
     = r\<lparr>precipitation := (if c then Some y else None)\<rparr>"
  by (simp add: ifTrue_def)

lemma transformCurrentWeather_closed_form:
  assumes "firstCondition (weather d) = Some w"
  shows "transformCurrentWeather d = Inr
     \<lparr>dt = dt' d, temperature = temp (main d), feelsLike = feels_like (main d),
      condition = description w,
      icon = (if icon' w \<noteq> [] then Some (icon' w) else None),
      humidity = humidity' (main d), pressure = pressure' (main d),
      windSpeed = speed (wind d), windDirection = deg (wind d), windGust = gust (wind d),
      visibility = map_option (\<lambda>v. v / 1000) (visibility' d), uvIndex = None,
      cloudCover = (case clouds d of None \<Rightarrow> None | Some c \<Rightarrow> all c), dewPoint = None,
      precipitation =
        (if oneHourOrZero (rain d) + oneHourOrZero (snow d) > 0
         then Some (oneHourOrZero (rain d) + oneHourOrZero (snow d)) else None),
      precipitationProbability = None,
      sunrise = (case sys d of None \<Rightarrow> None | Some s \<Rightarrow> sunrise' s),
      sunset = (case sys d of None \<Rightarrow> None | Some s \<Rightarrow> sunset' s),
      airQuality = None\<rparr>"
  unfolding transformCurrentWeather_def assms
  by (simp add: Let_def ifDefined_feelsLike ifDefined_windDirection ifDefined_windGust
        ifDefined_visibility ifDefined_cloudCover ifDefined_sunrise ifDefined_sunset
        ifTrue_icon ifTrue_precipitation)

text \<open>
  C8, as amended. For every provider response that has a weather element, the
  transformer returns a record in which \<open>feelsLike\<close>, \<open>windDirection\<close>, \<open>windGust\<close>,
  \<open>cloudCover\<close>, \<open>sunrise\<close> and \<open>sunset\<close> are exactly the source's optional values
  (\<open>visibility\<close> the source's, divided by 1000): set when the source has them, a zero
  included, and omitted otherwise, never defaulted. The icon is copied only when it is a
  non-empty string. The precipitation is the sum of the one-hour rain and snow amounts,
  a missing amount counting as 0, and is stored only when the sum is positive. The
  fields the provider does not deliver (\<open>uvIndex\<close>, \<open>dewPoint\<close>,
  \<open>precipitationProbability\<close>, \<open>airQuality\<close>) are omitted.
\<close>

theorem transformCurrentWeather_optional_fields:
  assumes "weather d = Some (w # ws)"
  shows "\<exists>r. transformCurrentWeather d = Inr r
     \<and> feelsLike r = feels_like (main d)
     \<and> windDirection r = deg (wind d)
     \<and> windGust r = gust (wind d)
     \<and> visibility r = map_option (\<lambda>v. v / 1000) (visibility' d)
     \<and> cloudCover r = (case clouds d of None \<Rightarrow> None | Some c \<Rightarrow> all c)
     \<and> sunrise r = (case sys d of None \<Rightarrow> None | Some s \<Rightarrow> sunrise' s)
     \<and> sunset r = (case sys d of None \<Rightarrow> None | Some s \<Rightarrow> sunset' s)
     \<and> icon r = (if icon' w \<noteq> [] then Some (icon' w) else None)
     \<and> precipitation r =
          (if oneHourOrZero (rain d) + oneHourOrZero (snow d) > 0
           then Some (oneHourOrZero (rain d) + oneHourOrZero (snow d)) else None)
     \<and> uvIndex r = None \<and> dewPoint r = None \<and> precipitationProbability r = None
     \<and> airQuality r = None"
proof -
  from assms have f: "firstCondition (weather d) = Some w"
    by (simp add: firstCondition_def)
  show ?thesis
    unfolding transformCurrentWeather_closed_form [OF f] by simp
qed

theorem transformCurrentWeather_optional_fields_witness:
  "\<exists>r. transformCurrentWeather clearSky = Inr r
     \<and> feelsLike r = Some 0 \<and> windDirection r = Some 0 \<and> windGust r = None
     \<and> visibility r = Some 10 \<and> cloudCover r = Some 0
     \<and> sunrise r = Some 1699990000 \<and> sunset r = None
     \<and> icon r = Some ''01d'' \<and> precipitation r = None"
proof -
  have h: "weather clearSky = Some (\<lparr>description = ''clear sky'', icon' = ''01d''\<rparr> # [])"
    by (simp add: clearSky_def)
  have p: "oneHourOrZero (rain clearSky) + oneHourOrZero (snow clearSky) = 0"
    by (simp add: clearSky_def oneHourOrZero_def)
  have v: "feels_like (main clearSky) = Some 0" "deg (wind clearSky) = Some 0"
    "gust (wind clearSky) = None" "visibility' clearSky = Some 10000"
    "clouds clearSky = Some \<lparr>all = Some 0\<rparr>"
    "sys clearSky = Some \<lparr>sunrise' = Some 1699990000, sunset' = None\<rparr>"
    by (simp_all add: clearSky_def)
  from transformCurrentWeather_optional_fields [OF h]
  have "\<exists>r. transformCurrentWeather clearSky = Inr r
     \<and> feelsLike r = Some 0 \<and> windDirection r = Some 0 \<and> windGust r = None
     \<and> visibility r = Some 10 \<and> cloudCover r = Some 0
     \<and> sunrise r = Some 1699990000 \<and> sunset r = None
     \<and> icon r = Some ''01d'' \<and> precipitation r = None
     \<and> uvIndex r = None \<and> dewPoint r = None \<and> precipitationProbability r = None
     \<and> airQuality r = None"
    unfolding p v by simp
  then show ?thesis by blast
qed

text \<open>
  C8, as stated, fails for the precipitation: a response whose one-hour rain amount is
  present and zero and a response with no rain object are transformed into the same
  record, with the precipitation omitted in both. The present zero and the absent value
  are not distinguishable in the output.
\<close>

theorem transformCurrentWeather_zero_rain_counterexample:
  "rain (clearSky\<lparr>rain := Some \<lparr>h1 = Some 0\<rparr>\<rparr>) = Some \<lparr>h1 = Some 0\<rparr>
   \<and> rain clearSky = None
   \<and> transformCurrentWeather (clearSky\<lparr>rain := Some \<lparr>h1 = Some 0\<rparr>\<rparr>) = transformCurrentWeather clearSky"
proof -
  have a: "rain (clearSky\<lparr>rain := Some \<lparr>h1 = Some 0\<rparr>\<rparr>) = Some \<lparr>h1 = Some 0\<rparr>" by simp
  have b: "rain clearSky = None" by (simp add: clearSky_def)
  have c: "oneHourOrZero (Some \<lparr>h1 = Some 0\<rparr>) = oneHourOrZero None"
    by (simp add: oneHourOrZero_def)
  have f: "firstCondition (weather clearSky) = Some \<lparr>description = ''clear sky'', icon' = ''01d''\<rparr>"
    by (simp add: clearSky_def firstCondition_def)
  have g: "firstCondition (weather (clearSky\<lparr>rain := Some \<lparr>h1 = Some 0\<rparr>\<rparr>))
      = Some \<lparr>description = ''clear sky'', icon' = ''01d''\<rparr>"
    using f by simp
  have d: "transformCurrentWeather (clearSky\<lparr>rain := Some \<lparr>h1 = Some 0\<rparr>\<rparr>)
      = transformCurrentWeather clearSky"
    unfolding transformCurrentWeather_closed_form [OF f] transformCurrentWeather_closed_form [OF g]
    by (simp add: b c)
  from a b d show ?thesis by blast
qed

subsection \<open>The retry loop\<close>

lemma retryLoop_retried:
  assumes "attempt \<le> attempts'" "retried (env attempt)"
  shows "\<exists>err. retryLoop env attempts' delay' attempt lastError eff
     = retryLoop env attempts' delay' (attempt + 1) err
         (if attempt < attempts'
          then eff\<lparr>fetches := fetches eff + 1, sleeps := sleeps eff @ [delay' * attempt]\<rparr>
          else eff\<lparr>fetches := fetches eff + 1\<rparr>)"
  using assms
  by (subst retryLoop.simps) (auto simp add: retried_def Let_def split: sum.splits)

lemma retryLoop_at_cancellation:
  assumes "attempt \<le> attempts'" "cancelledAt (env attempt)"
  shows "retryLoop env attempts' delay' attempt lastError eff
     = (Inl (Error ''Request cancelled''), eff\<lparr>fetches := fetches eff + 1\<rparr>)"
  using assms
  by (subst retryLoop.simps) (auto simp add: cancelledAt_def Let_def isl_def split: sum.splits)

lemma retryLoop_until_cancellation:
  assumes "n = nat (k - attempt)" "attempt \<le> k" "k \<le> attempts'"
    and "\<forall>j. attempt \<le> j \<and> j < k \<longrightarrow> retried (env j)"
    and "cancelledAt (env k)"
  shows "retryLoop env attempts' delay' attempt lastError eff
     = (Inl (Error ''Request cancelled''),
        \<lparr>fetches = fetches eff + nat (k - attempt + 1),
         sleeps = sleeps eff @ map (\<lambda>j. delay' * j) [attempt..k - 1]\<rparr>)"
  using assms
proof (induction n arbitrary: attempt lastError eff)
  case 0
  then have "attempt = k" by simp
  with 0 show ?case by (simp add: retryLoop_at_cancellation)
next
  case (Suc n)
  then have lt: "attempt < k" by simp
  with Suc.prems have r: "retried (env attempt)" and le: "attempt \<le> attempts'"
    and lt': "attempt < attempts'"
    by auto
  from retryLoop_retried [of attempt attempts' env delay' lastError eff] le r lt'
  obtain err where
    e: "retryLoop env attempts' delay' attempt lastError eff
      = retryLoop env attempts' delay' (attempt + 1) err
          (eff\<lparr>fetches := fetches eff + 1, sleeps := sleeps eff @ [delay' * attempt]\<rparr>)"
    by auto
  have "retryLoop env attempts' delay' (attempt + 1) err
          (eff\<lparr>fetches := fetches eff + 1, sleeps := sleeps eff @ [delay' * attempt]\<rparr>)
     = (Inl (Error ''Request cancelled''),
        \<lparr>fetches = fetches (eff\<lparr>fetches := fetches eff + 1, sleeps := sleeps eff @ [delay' * attempt]\<rparr>)
            + nat (k - (attempt + 1) + 1),
         sleeps = sleeps (eff\<lparr>fetches := fetches eff + 1, sleeps := sleeps eff @ [delay' * attempt]\<rparr>)
            @ map (\<lambda>j. delay' * j) [attempt + 1..k - 1]\<rparr>)"
    using Suc.prems lt by (intro Suc.IH) auto
  moreover have "[attempt..k - 1] = attempt # [attempt + 1..k - 1]"
    using lt by (simp add: upto_rec1)
  moreover have "Suc (nat (k - (attempt + 1) + 1)) = nat (k - attempt + 1)"
    using lt by simp
  ultimately show ?case using e by simp
qed

lemma retryLoop_no_abort:
  assumes "\<forall>j. \<not> aborted (env j)"
    and "\<forall>j m. outcome (env j) = Threw m \<longrightarrow> m \<noteq> ''Request cancelled''"
    and "lastError \<noteq> Error ''Request cancelled''"
  shows "fst (retryLoop env attempts' delay' attempt lastError eff) \<noteq> Inl (Error ''Request cancelled'')"
  using assms(3)
proof (induction "nat (attempts' + 1 - attempt)" arbitrary: attempt lastError eff)
  case 0
  then have "\<not> attempt \<le> attempts'" by simp
  with 0 show ?case by (subst retryLoop.simps) simp
next
  case (Suc n)
  then have le: "attempt \<le> attempts'" by simp
  show ?case
  proof (cases "tryBlock (outcome (env attempt))")
    case (Inr data)
    with le show ?thesis by (subst retryLoop.simps) (simp add: Let_def)
  next
    case (Inl err)
    have ne: "err \<noteq> Error ''Request cancelled''"
      using Inl assms(2) by (cases "outcome (env attempt)") (auto simp add: tryBlock_def)
    have na: "\<not> aborted (env attempt)" using assms(1) by simp
    show ?thesis
    proof (cases "messageIncludes4 err")
      case True
      with le Inl ne na show ?thesis
        by (subst retryLoop.simps) (simp add: Let_def)
    next
      case False
      have n: "n = nat (attempts' + 1 - (attempt + 1))" using Suc.hyps(2) by simp
      have rec: "fst (retryLoop env attempts' delay' (attempt + 1) err e)
            \<noteq> Inl (Error ''Request cancelled'')" for e
        using Suc.hyps(1) [OF n ne] .
      from le Inl False na rec show ?thesis
        by (subst retryLoop.simps) (simp add: Let_def)
    qed
  qed
qed

text \<open>
  A response of the 4xx class is not retried: its message has the status in it, which
  begins with "4". And a run in which every attempt is retried makes \<open>attempts'\<close>
  calls of \<^verbatim>\<open>fetch\<close>, waits \<open>delay' * n\<close> after the failed attempt \<open>n\<close> (not after the
  last one) and raises the error of the last attempt.
\<close>

lemma clientError_includes4:
  assumes "400 \<le> status" "status \<le> 499"
  shows "\<exists>m. tryBlock (NotOk status msg statusText) = Inl (Error m) \<and> includes_str m ''4''"
proof -
  let ?rest = "[digitChar (status div 10 mod 10), digitChar (status mod 10)] @ '': '' @
                 (case msg of Some m \<Rightarrow> if m \<noteq> [] then m else statusText | None \<Rightarrow> statusText)"
  have "tryBlock (NotOk status msg statusText)
      = Inl (Error (''OpenWeather API error '' @ ''4'' @ ?rest))"
    by (simp add: tryBlock_def toString_4xx [OF assms])
  moreover have "includes_str (''OpenWeather API error '' @ ''4'' @ ?rest) ''4''"
    unfolding includes_str_iff by blast
  ultimately show ?thesis by blast
qed

lemma retryLoop_clientError_not_retried:
  assumes "attempt \<le> attempts'" "outcome (env attempt) = NotOk status msg statusText"
    and "400 \<le> status" "status \<le> 499" "\<not> aborted (env attempt)"
  shows "retryLoop env attempts' delay' attempt lastError eff
     = (tryBlock (NotOk status msg statusText), eff\<lparr>fetches := fetches eff + 1\<rparr>)"
proof -
  from clientError_includes4 [OF assms(3,4), of msg statusText] obtain m where
    m: "tryBlock (NotOk status msg statusText :: 'a fetched) = Inl (Error m)" "includes_str m ''4''"
    by blast
  then have "messageIncludes4 (Error m)" by (simp add: messageIncludes4_def)
  with assms m show ?thesis
    by (subst retryLoop.simps) (simp add: Let_def)
qed

lemma retryLoop_all_retried:
  assumes "n = nat (attempts' + 1 - attempt)" "attempt \<le> attempts'"
    and "\<forall>j. attempt \<le> j \<and> j \<le> attempts' \<longrightarrow> retried (env j)"
  shows "retryLoop env attempts' delay' attempt lastError eff
     = (tryBlock (outcome (env attempts')),
        \<lparr>fetches = fetches eff + nat (attempts' + 1 - attempt),
         sleeps = sleeps eff @ map (\<lambda>j. delay' * j) [attempt..attempts' - 1]\<rparr>)"
  using assms
proof (induction n arbitrary: attempt lastError eff)
  case 0
  then show ?case by simp
next
  case (Suc n)
  then have r: "retried (env attempt)" by simp
  then obtain err where err: "tryBlock (outcome (env attempt)) = Inl err"
    "\<not> aborted (env attempt)" "\<not> messageIncludes4 err"
    by (auto simp add: retried_def split: sum.splits)
  show ?case
  proof (cases "attempt = attempts'")
    case True
    have "retryLoop env attempts' delay' (attempts' + 1) err e = (Inl err, e)" for e
      by (subst retryLoop.simps) simp
    with True err show ?thesis
      by (subst retryLoop.simps) (simp add: Let_def)
  next
    case False
    with Suc.prems have lt: "attempt < attempts'" by simp
    have "retryLoop env attempts' delay' (attempt + 1) err
            (eff\<lparr>fetches := fetches eff + 1, sleeps := sleeps eff @ [delay' * attempt]\<rparr>)
       = (tryBlock (outcome (env attempts')),
          \<lparr>fetches = fetches (eff\<lparr>fetches := fetches eff + 1, sleeps := sleeps eff @ [delay' * attempt]\<rparr>)
              + nat (attempts' + 1 - (attempt + 1)),
           sleeps = sleeps (eff\<lparr>fetches := fetches eff + 1, sleeps := sleeps eff @ [delay' * attempt]\<rparr>)
              @ map (\<lambda>j. delay' * j) [attempt + 1..attempts' - 1]\<rparr>)"
      using Suc.prems lt by (intro Suc.IH) auto
    moreover have "[attempt..attempts' - 1] = attempt # [attempt + 1..attempts' - 1]"
      using lt by (simp add: upto_rec1)
    moreover have "Suc (nat (attempts' + 1 - (attempt + 1))) = nat (attempts' + 1 - attempt)"
      using lt by simp
    ultimately show ?thesis using err lt
      by (subst retryLoop.simps) (simp add: Let_def)
  qed
qed

text \<open>
  C3. The claim holds of the 4xx responses and fails of the 5xx ones: the test that is
  meant to stop the loop on a client error is \<^verbatim>\<open>error.message.includes("4")\<close>, and the
  message of a 504 response, "OpenWeather API error 504: Gateway Timeout", has a "4".
  With the default three attempts and 1000 ms, a server that answers 504 is asked once
  and the error is raised at once, with no wait; a server that answers 503 is asked three
  times, with waits of 1000 and 2000 ms.
\<close>

theorem retryLoop_gateway_timeout_not_retried:
  "fst (makeRequest defaults 5000 5000 gatewayTimeout \<lparr>lastRequestTime = 0, requestCount = 0\<rparr>)
     = (Inl (Error ''OpenWeather API error 504: Gateway Timeout''), \<lparr>fetches = 1, sleeps = []\<rparr>)
   \<and> fst (makeRequest defaults 5000 5000 serviceUnavailable \<lparr>lastRequestTime = 0, requestCount = 0\<rparr>)
     = (Inl (Error ''OpenWeather API error 503: Service Unavailable''),
        \<lparr>fetches = 3, sleeps = [1000, 2000]\<rparr>)"
  by code_simp

text \<open>
  What the loop does when the caller aborts the signal. While attempt \<open>i\<close> is in
  flight: the attempt fails, the \<^verbatim>\<open>catch\<close> block finds the signal aborted, and the loop
  ends with \<^verbatim>\<open>Error("Request cancelled")\<close> after \<open>i\<close> calls of \<^verbatim>\<open>fetch\<close> and the waits of
  the attempts before \<open>i\<close>: nothing follows the cancellation. While the loop waits after
  the failed attempt \<open>i\<close>: the wait is completed and attempt \<open>i + 1\<close> is made, one call
  of \<^verbatim>\<open>fetch\<close> after the cancellation, before the loop ends with the same error. A run
  whose signal is never aborted does not end with that error (provided the transport
  does not itself throw an error with this very message).
\<close>

lemma meets_not_aborted:
  "\<not> abortedBy c j \<Longrightarrow> meets server msg c j = \<lparr>outcome = server j, aborted = False\<rparr>"
  by (simp add: meets_def)

lemma meets_aborted: "abortedBy c j \<Longrightarrow> cancelledAt (meets server msg c j)"
  by (simp add: meets_def cancelledAt_def tryBlock_def)

lemma retryLoop_cancelled_during_fetch:
  assumes "1 \<le> i" "i \<le> attempts'"
    and "\<forall>j. 1 \<le> j \<and> j < i \<longrightarrow> retried \<lparr>outcome = server j, aborted = False\<rparr>"
  shows "retryLoop (meets server msg (DuringFetch i)) attempts' delay' 1 ThrownUndefined
           \<lparr>fetches = 0, sleeps = []\<rparr>
       = (Inl (Error ''Request cancelled''),
          \<lparr>fetches = nat i, sleeps = map (\<lambda>j. delay' * j) [1..i - 1]\<rparr>)"
proof -
  have r: "\<forall>j. 1 \<le> j \<and> j < i \<longrightarrow> retried (meets server msg (DuringFetch i) j)"
    using assms(3) by (simp add: meets_def abortedBy_def)
  have c: "cancelledAt (meets server msg (DuringFetch i) i)"
    by (rule meets_aborted) (simp add: abortedBy_def)
  show ?thesis
    using retryLoop_until_cancellation
      [of "nat (i - 1)" i 1 attempts' "meets server msg (DuringFetch i)" delay' ThrownUndefined
        "\<lparr>fetches = 0, sleeps = []\<rparr>"]
      assms(1,2) r c
    by simp
qed

lemma retryLoop_cancelled_during_wait:
  assumes "0 \<le> i" "i < attempts'"
    and "\<forall>j. 1 \<le> j \<and> j \<le> i \<longrightarrow> retried \<lparr>outcome = server j, aborted = False\<rparr>"
  shows "retryLoop (meets server msg (DuringWait i)) attempts' delay' 1 ThrownUndefined
           \<lparr>fetches = 0, sleeps = []\<rparr>
       = (Inl (Error ''Request cancelled''),
          \<lparr>fetches = nat i + 1, sleeps = map (\<lambda>j. delay' * j) [1..i]\<rparr>)"
proof -
  have r: "\<forall>j. 1 \<le> j \<and> j < i + 1 \<longrightarrow> retried (meets server msg (DuringWait i) j)"
    using assms(3) by (simp add: meets_def abortedBy_def)
  have c: "cancelledAt (meets server msg (DuringWait i) (i + 1))"
    by (rule meets_aborted) (simp add: abortedBy_def)
  have n: "nat (i + 1 - 1 + 1) = nat i + 1"
    using assms(1) by simp
  show ?thesis
    using retryLoop_until_cancellation
      [of "nat i" "i + 1" 1 attempts' "meets server msg (DuringWait i)" delay' ThrownUndefined
        "\<lparr>fetches = 0, sleeps = []\<rparr>"]
      assms(1,2) r c n
    by simp
qed

lemma retryLoop_never_cancelled:
  assumes "\<forall>j m. server j = Threw m \<longrightarrow> m \<noteq> ''Request cancelled''"
  shows "\<not> isCancellation e \<or>
     fst (retryLoop (meets server msg Never) attempts' delay' 1 ThrownUndefined
            \<lparr>fetches = 0, sleeps = []\<rparr>) \<noteq> Inl e"
proof -
  have a: "\<forall>j. \<not> aborted (meets server msg Never j)"
    by (simp add: meets_def abortedBy_def)
  have b: "\<forall>j m. outcome (meets server msg Never j) = Threw m \<longrightarrow> m \<noteq> ''Request cancelled''"
    using assms by (simp add: meets_def abortedBy_def)
  from retryLoop_no_abort
    [of "meets server msg Never" ThrownUndefined attempts' delay' 1 "\<lparr>fetches = 0, sleeps = []\<rparr>"]
    a b
  show ?thesis by (auto simp add: isCancellation_def)
qed

text \<open>
  C4. The claim holds of a signal that is aborted while an attempt is in flight, and
  fails of one that is aborted while the loop waits between two attempts: the test
  \<^verbatim>\<open>signal?.aborted\<close> stands in the \<^verbatim>\<open>catch\<close> block only. With the default three attempts
  and 1000 ms and a server that answers 503: when the signal is aborted during the wait
  that follows the first attempt, one call of \<^verbatim>\<open>fetch\<close> has been made before the
  cancellation and the run makes two, the second after the wait is over; when it is
  aborted during the first attempt, the run makes that one call and no wait. Both runs
  end with \<^verbatim>\<open>Error("Request cancelled")\<close>, which the caller's test recognises, and the run
  whose signal is never aborted ends with an error that the test does not take for a
  cancellation.
\<close>

theorem makeRequest_cancelled_during_wait:
  "fst (makeRequest defaults 5000 5000 (meets unavailable abortMessage (DuringWait 1))
          \<lparr>lastRequestTime = 0, requestCount = 0\<rparr>)
     = (Inl (Error ''Request cancelled''), \<lparr>fetches = 2, sleeps = [1000]\<rparr>)
   \<and> startedBefore (DuringWait 1) = Some 1
   \<and> fst (makeRequest defaults 5000 5000 (meets unavailable abortMessage (DuringFetch 1))
          \<lparr>lastRequestTime = 0, requestCount = 0\<rparr>)
     = (Inl (Error ''Request cancelled''), \<lparr>fetches = 1, sleeps = []\<rparr>)
   \<and> startedBefore (DuringFetch 1) = Some 1
   \<and> isCancellation (Error ''Request cancelled'')
   \<and> fst (makeRequest defaults 5000 5000 (meets unavailable abortMessage Never)
          \<lparr>lastRequestTime = 0, requestCount = 0\<rparr>)
     = (Inl (Error ''OpenWeather API error 503: Service Unavailable''),
        \<lparr>fetches = 3, sleeps = [1000, 2000]\<rparr>)
   \<and> \<not> isCancellation (Error ''OpenWeather API error 503: Service Unavailable'')"
  by code_simp

subsection \<open>The request governor\<close>

text \<open>
  A call that nothing interrupts: when the window has elapsed, the counter and the
  window start are reset and the caller is admitted without a wait; when the counter is
  at the limit, the caller waits for the rest of the window and is then admitted, in a
  window of its own; in both cases and in the third the method returns. And such calls
  keep the counter, which counts the callers admitted since the window start was last
  set, between 1 and the limit.
\<close>

lemma checkRateLimit_elapsed:
  assumes "now - lastRequestTime g > windowOf cfg" "0 < requestsOf cfg"
  shows "checkRateLimit cfg now woken g = (None, \<lparr>lastRequestTime = now, requestCount = 1\<rparr>)"
  using assms by (simp add: checkRateLimit_def checkRateLimit_enter_def Let_def)

lemma checkRateLimit_at_limit:
  assumes "\<not> now - lastRequestTime g > windowOf cfg" "requestCount g \<ge> requestsOf cfg"
  shows "checkRateLimit cfg now woken g
     = (Some (windowOf cfg - (now - lastRequestTime g)), \<lparr>lastRequestTime = woken, requestCount = 1\<rparr>)"
  using assms
  by (simp add: checkRateLimit_def checkRateLimit_enter_def checkRateLimit_resume_def Let_def)

lemma checkRateLimit_sequential_bound:
  assumes "0 < requestsOf cfg" "0 \<le> requestCount g" "requestCount g \<le> requestsOf cfg"
  shows "0 < requestCount (snd (checkRateLimit cfg now woken g))
     \<and> requestCount (snd (checkRateLimit cfg now woken g)) \<le> requestsOf cfg"
  using assms
  by (auto simp add: checkRateLimit_def checkRateLimit_enter_def checkRateLimit_resume_def Let_def)

text \<open>
  C7. The first two parts of the claim hold, as the lemmas above say, and so does the
  bound for calls that do not overlap; the bound does not hold when callers overlap. With two requests per 1000 ms:
  two callers are admitted at 5000 and 5001; a third and a fourth arrive at 5002 and
  5003, find the counter at the limit and wait for the rest of the window. When their
  timers fire at 6000 each of them sets the counter to 0 and then to 1, so both are
  admitted at 6000 and the counter reads 1; a caller arriving at 6001 is admitted too.
  Three requests are admitted in the window that starts at 6000, and the limit is two.
\<close>

theorem checkRateLimit_overlapping_waiters:
  "requestsOf twoPerSecond = 2 \<and> windowOf twoPerSecond = 1000
   \<and> run twoPerSecond [Call 5000, Call 5001, Call 5002, Call 5003, Fire 6000, Fire 6000, Call 6001]
       initialRun
     = Some \<lparr>governor = \<lparr>lastRequestTime = 6000, requestCount = 2\<rparr>, pending = [],
          admitted = [5000, 5001, 6000, 6000, 6001], clock = 6001\<rparr>
   \<and> length (filter (\<lambda>t. 6000 \<le> t \<and> t < 6000 + 1000) [5000, 5001, 6000, 6000, 6001 :: int]) = 3"
  by code_simp

subsection \<open>Requests in flight\<close>

lemma call_in_flight:
  assumes "requestQueue c (cacheKeyOf numberToString coordinates') = Some p"
  shows "getCurrentWeather_call numberToString buildUrl coordinates' c = (p, c)"
  using assms by (simp add: getCurrentWeather_call_def)

lemma calls_in_flight:
  assumes "requestQueue c (cacheKeyOf numberToString coordinates') = Some p"
  shows "calls n numberToString buildUrl coordinates' c = (replicate n p, c)"
  using assms by (induction n) (simp_all add: call_in_flight)


text \<open>
  When \<^verbatim>\<open>buildUrl\<close> throws, the call starts no request and leaves the rejected promise in
  the map, where no completion will delete it: every later call with these coordinates
  is handed that promise.
\<close>

lemma call_buildUrl_throws:
  assumes "requestQueue c (cacheKeyOf numberToString coordinates') = None"
    and "buildUrl coordinates' = Inl err"
  shows "getCurrentWeather_call numberToString buildUrl coordinates' c
     = (promiseCount c,
        c\<lparr>promiseCount := promiseCount c + 1,
           settled := (settled c)(promiseCount c \<mapsto> Inl err),
           requestQueue := (requestQueue c)(cacheKeyOf numberToString coordinates' \<mapsto> promiseCount c)\<rparr>)"
  using assms by (simp add: getCurrentWeather_call_def Let_def)

lemma calls_buildUrl_throws:
  assumes "requestQueue c (cacheKeyOf numberToString coordinates') = None"
    and "buildUrl coordinates' = Inl err"
  shows "fst (calls (Suc n) numberToString buildUrl coordinates' c) = replicate (Suc n) (promiseCount c)
     \<and> started (snd (calls (Suc n) numberToString buildUrl coordinates' c)) = started c
     \<and> settled (snd (calls (Suc n) numberToString buildUrl coordinates' c)) (promiseCount c)
         = Some (Inl err)
     \<and> requestQueue (snd (calls (Suc n) numberToString buildUrl coordinates' c))
          (cacheKeyOf numberToString coordinates') = Some (promiseCount c)"
proof -
  let ?k = "cacheKeyOf numberToString coordinates'"
  let ?c1 = "c\<lparr>promiseCount := promiseCount c + 1,
           settled := (settled c)(promiseCount c \<mapsto> Inl err),
           requestQueue := (requestQueue c)(?k \<mapsto> promiseCount c)\<rparr>"
  have q: "requestQueue ?c1 ?k = Some (promiseCount c)" by simp
  have "calls (Suc n) numberToString buildUrl coordinates' c
      = (replicate (Suc n) (promiseCount c), ?c1)"
    using call_buildUrl_throws
        [where c = c and numberToString = numberToString and coordinates' = coordinates'
          and buildUrl = buildUrl and err = err]
      assms calls_in_flight [OF q, of n buildUrl]
    by simp
  then show ?thesis by simp
qed

lemma calls_invalidBaseUrl:
  "fst (calls 2 wholeNumber invalidBaseUrl \<lparr>lat = 10, lon = 20\<rparr> newClient) = [0, 0]
   \<and> started (snd (calls 2 wholeNumber invalidBaseUrl \<lparr>lat = 10, lon = 20\<rparr> newClient)) = []
   \<and> settled (snd (calls 2 wholeNumber invalidBaseUrl \<lparr>lat = 10, lon = 20\<rparr> newClient)) 0
       = Some (Inl (Error ''Invalid URL''))
   \<and> requestQueue (snd (calls 2 wholeNumber invalidBaseUrl \<lparr>lat = 10, lon = 20\<rparr> newClient))
         ''current-10-20'' = Some 0"
  by code_simp











subsection \<open>The cache with expiry\<close>

text \<open>
  The runs of the effect need not come to an end: when the storage is full and the item
  under the key is an object whose \<^verbatim>\<open>value\<close> is an object and which has no \<^verbatim>\<open>expiry\<close>,
  every check sets the state to a new object and leaves the item as it is.
\<close>

lemma effectRuns_without_end:
  assumes "quotaExceeded h"
    and "storage h key = Some (Val (JObj [(''value'', JObj members)]))"
  shows "effectRuns fuel toNumber key initialValue now h = None"
  using assms
proof (induction fuel arbitrary: h)
  case 0
  show ?case by simp
next
  case (Suc fuel)
  let ?h1 = "h\<lparr>storedValue := Val (JObj members)\<rparr>"
  have c: "checkExpiry toNumber key initialValue now h = ?h1"
    using Suc.prems
    by (simp add: checkExpiry_def property_def exceeds_def setValue_def resolve_def Let_def)
  have d: "differs (storedValue h) (storedValue ?h1)"
    by (simp add: differs_def)
  have "effectRuns fuel toNumber key initialValue now ?h1 = None"
    using Suc.prems by (intro Suc.IH) simp_all
  with c d Suc.prems(2) show ?case by (simp add: Let_def)
qed

text \<open>
  C1. The claim fails on the code: \<open>setValueWithExpiry\<close> stores the pair and then calls
  \<open>setValue\<close>, which stores the bare value under the same key. After
  \<^verbatim>\<open>set({temp: 22})\<close> with ten minutes on an empty cache, the item under \<^verbatim>\<open>weather_123\<close> is
  \<^verbatim>\<open>{"temp":22}\<close>, not \<^verbatim>\<open>{value, expiry}\<close>, and the value in the state is the written one.
  The state has changed, so the effect runs. Its first check finds no \<^verbatim>\<open>value\<close> and no
  \<^verbatim>\<open>expiry\<close> in the item, the comparison with \<^verbatim>\<open>undefined\<close> is false, and it calls
  \<^verbatim>\<open>setValue(undefined)\<close>: the value is \<^verbatim>\<open>undefined\<close> and the item the string "undefined".
  The second check cannot parse that item and calls \<^verbatim>\<open>removeValue\<close>: the value is the
  initial one and the key is removed. The third check finds no item. So the write leaves
  the hook as it found it, an empty cache, without any time having passed: a read before
  the ten minutes are over does not return the written value.
\<close>

theorem setValueWithExpiry_payload_overwritten:
  "storage written ''weather_123'' = Some (Val (JObj [(''temp'', JNum 22)]))
   \<and> storage written ''weather_123''
       \<noteq> Some (Val (dataWithExpiry temp22 (1700000000000 + 10 * 60 * 1000)))
   \<and> storedValue written = temp22
   \<and> differs (storedValue emptyCache) (storedValue written)
   \<and> checkExpiry notANumber ''weather_123'' (Val JNull) 1700000000000 written
       = \<lparr>storage = [''weather_123'' \<mapsto> Undefined], quotaExceeded = False,
          storedValue = Undefined\<rparr>
   \<and> checkExpiry notANumber ''weather_123'' (Val JNull) 1700000000000
         (checkExpiry notANumber ''weather_123'' (Val JNull) 1700000000000 written)
       = emptyCache
   \<and> writeThrough 3 notANumber ''weather_123'' (Val JNull) 10 1700000000000 (Direct temp22) emptyCache
       = Some emptyCache"
proof -
  let ?first = "\<lparr>storage = [''weather_123'' \<mapsto> Undefined], quotaExceeded = False,
          storedValue = Undefined\<rparr>"
  have w: "written = \<lparr>storage = [''weather_123'' \<mapsto> temp22], quotaExceeded = False,
          storedValue = temp22\<rparr>"
    by (simp add: written_def emptyCache_def setValueWithExpiry_def setValue_def resolve_def
          Let_def)
  have item: "storage written ''weather_123'' = Some (Val (JObj [(''temp'', JNum 22)]))"
    by (simp add: w temp22_def)
  have pair: "storage written ''weather_123''
       \<noteq> Some (Val (dataWithExpiry temp22 (1700000000000 + 10 * 60 * 1000)))"
    by (simp add: w temp22_def dataWithExpiry_def)
  have val: "storedValue written = temp22"
    by (simp add: w)
  have d0: "differs (storedValue emptyCache) (storedValue written)"
    by (simp add: w temp22_def differs_def)
  have c1: "checkExpiry notANumber ''weather_123'' (Val JNull) 1700000000000 written = ?first"
    by (simp add: w temp22_def checkExpiry_def property_def exceeds_def setValue_def
          resolve_def Let_def)
  have d1: "differs (storedValue written) (storedValue ?first)"
    by (simp add: w temp22_def differs_def)
  have c2: "checkExpiry notANumber ''weather_123'' (Val JNull) 1700000000000 ?first = emptyCache"
    by (simp add: checkExpiry_def removeValue_def emptyCache_def)
  have d2: "differs (storedValue ?first) (storedValue emptyCache)"
    by (simp add: emptyCache_def differs_def)
  have c3: "checkExpiry notANumber ''weather_123'' (Val JNull) 1700000000000 emptyCache
      = emptyCache"
    by (simp add: checkExpiry_def emptyCache_def)
  have s3: "storage emptyCache ''weather_123'' = None"
    by (simp add: emptyCache_def)
  have s1: "storage ?first ''weather_123'' \<noteq> None" by simp
  have e: "effectRuns 3 notANumber ''weather_123'' (Val JNull) 1700000000000 written
      = Some emptyCache"
    unfolding numeral_3_eq_3 effectRuns.simps Let_def c1 c2 c3
    using item d1 d2 s1 s3 by simp
  have q: "\<not> quotaExceeded emptyCache" by (simp add: emptyCache_def)
  have wr: "writeThrough 3 notANumber ''weather_123'' (Val JNull) 10 1700000000000 (Direct temp22)
        emptyCache = Some emptyCache"
    unfolding writeThrough_def Let_def written_def [symmetric]
    using d0 q e by simp
  from item pair val d0 c1 c2 wr show ?thesis
    by (simp only: simp_thms)
qed

end
